theory Spec2Isabelle
  imports Complex_Main
begin

section \<open>Exceptions and stateful computations\<close>

text \<open>
  The module \<open>firebase_config.py\<close> is a class \<open>FirebaseConfig\<close> with three fields and four
  methods, all of which talk to collaborators outside the repository: the \<open>os\<close> and
  \<open>json\<close> modules, the \<open>firebase_admin\<close> SDK, the Firestore client, the clock and the random
  generator. A collaborator call either returns or raises; what it does is a field of the
  record \<open>env\<close> below, so every theorem holds for every behaviour of the collaborators.

  An exception value stands for an instance of Python's class \<open>Exception\<close>, the class that
  both handlers of the module name (\<open>except Exception as e\<close>); its string is what
  \<open>str(e)\<close> prints.
\<close>

datatype exception = Exception string

fun message :: "exception \<Rightarrow> string" where
  "message (Exception m) = m"

text \<open>
  A statement sequence is a function from the state to an outcome and the state it leaves.
  The state survives a raise, as the assignments made before it do in Python.
\<close>

type_synonym ('s, 'a) prog = "'s \<Rightarrow> (exception + 'a) \<times> 's"

definition return :: "'a \<Rightarrow> ('s, 'a) prog" where
  "return v = (\<lambda>s. (Inr v, s))"

definition raise :: "exception \<Rightarrow> ('s, 'a) prog" where
  "raise e = (\<lambda>s. (Inl e, s))"

definition bind :: "('s, 'a) prog \<Rightarrow> ('a \<Rightarrow> ('s, 'b) prog) \<Rightarrow> ('s, 'b) prog" where
  "bind m f = (\<lambda>s. case m s of (Inl e, s') \<Rightarrow> (Inl e, s') | (Inr v, s') \<Rightarrow> f v s')"

definition try_except :: "('s, 'a) prog \<Rightarrow> (exception \<Rightarrow> ('s, 'a) prog) \<Rightarrow> ('s, 'a) prog" where
  "try_except body handler =
     (\<lambda>s. case body s of (Inl e, s') \<Rightarrow> handler e s' | (Inr v, s') \<Rightarrow> (Inr v, s'))"

primrec for_each :: "('a \<Rightarrow> ('s, unit) prog) \<Rightarrow> 'a list \<Rightarrow> ('s, unit) prog" where
  "for_each f [] = return ()"
| "for_each f (x # xs) = bind (f x) (\<lambda>_. for_each f xs)"

section \<open>Data model\<close>

datatype json = Json string

datatype credential =
    Certificate_path string
  | Certificate_info json
  | ApplicationDefault

datatype app = App string

datatype client = Client string

text \<open>The three fields that \<open>__init__\<close> creates.\<close>

record FirebaseConfig =
  app :: "app option"
  db :: "client option"
  is_initialized :: bool

text \<open>
  What one call asks of its collaborators, in order. The trace is the evidence for which
  credential strategy was tried and which was never looked at.
\<close>

datatype event =
    Apps_checked
  | Get_app
  | Firestore_client
  | Path_exists string
  | Getenv string
  | Json_loads string
  | Certificate_of_path string
  | Certificate_of_info json
  | Application_default
  | Initialize_app credential
  | Print string

text \<open>
  Values stored in a Firestore document, and a document as a Python dict in insertion
  order. A float is the rational number it stands for, and a \<open>datetime\<close> is a number of
  microseconds on the scale of the local clock.
\<close>

datatype pyval =
    VStr string
  | VFloat rat
  | VInt int
  | VBool bool
  | VDatetime int
  | VDict "(string \<times> pyval) list"
  | VList "pyval list"

type_synonym document = "(string \<times> pyval) list"

text \<open>
  The collaborators. \<open>now k\<close> is the k-th reading of \<open>datetime.now()\<close> in microseconds,
  \<open>random k\<close> the k-th result of \<open>random.random()\<close>, and \<open>firestore_fault k\<close> the exception
  that the k-th Firestore request raises, if it raises. \<open>print_fault line\<close> is the
  exception that \<open>print(line)\<close> raises when standard output cannot take the line, for
  instance \<open>UnicodeEncodeError\<close> on a console whose encoding has no emoji.
\<close>

record env =
  apps_nonempty :: bool
  get_app :: "exception + app"
  firestore_client :: "exception + client"
  module_dir :: string
  path_exists :: "string \<Rightarrow> bool"
  environ :: "string \<Rightarrow> string option"
  json_loads :: "string \<Rightarrow> exception + json"
  certificate_of_path :: "string \<Rightarrow> exception option"
  certificate_of_info :: "json \<Rightarrow> exception option"
  application_default :: "exception option"
  initialize_app :: "credential \<Rightarrow> exception + app"
  now :: "nat \<Rightarrow> int"
  random :: "nat \<Rightarrow> rat"
  firestore_fault :: "nat \<Rightarrow> exception option"
  print_fault :: "string \<Rightarrow> exception option"

text \<open>The emoji that open the printed lines, as their UTF-8 bytes.\<close>

definition check_mark :: string where
  "check_mark = [CHR 0xE2, CHR 0x9C, CHR 0x85]"

definition warning_sign :: string where
  "warning_sign = [CHR 0xE2, CHR 0x9A, CHR 0xA0, CHR 0xEF, CHR 0xB8, CHR 0x8F]"

definition cross_mark :: string where
  "cross_mark = [CHR 0xE2, CHR 0x9D, CHR 0x8C]"

definition bar_chart :: string where
  "bar_chart = [CHR 0xF0, CHR 0x9F, CHR 0x93, CHR 0x8A]"

section \<open>initialize_firebase\<close>

type_synonym istate = "FirebaseConfig \<times> event list"

definition call :: "event \<Rightarrow> exception + 'a \<Rightarrow> (istate, 'a) prog" where
  "call ev outcome = (\<lambda>(self, tr). (outcome, (self, tr @ [ev])))"

definition construct :: "event \<Rightarrow> exception option \<Rightarrow> 'a \<Rightarrow> (istate, 'a) prog" where
  "construct ev fault v = call ev (case fault of Some e \<Rightarrow> Inl e | None \<Rightarrow> Inr v)"

text \<open>\<open>print(line)\<close>: the attempt is logged; it raises when standard output refuses the line.\<close>

definition py_print :: "env \<Rightarrow> string \<Rightarrow> (istate, unit) prog" where
  "py_print E line = construct (Print line) (print_fault E line) ()"

definition set_app :: "app \<Rightarrow> (istate, unit) prog" where
  "set_app a = (\<lambda>(self, tr). (Inr (), (self\<lparr>app := Some a\<rparr>, tr)))"

definition set_db :: "client \<Rightarrow> (istate, unit) prog" where
  "set_db c = (\<lambda>(self, tr). (Inr (), (self\<lparr>db := Some c\<rparr>, tr)))"

definition set_is_initialized :: "bool \<Rightarrow> (istate, unit) prog" where
  "set_is_initialized b = (\<lambda>(self, tr). (Inr (), (self\<lparr>is_initialized := b\<rparr>, tr)))"

text \<open>\<open>os.path.join\<close> on two components (POSIX).\<close>

definition os_path_join :: "string \<Rightarrow> string \<Rightarrow> string" where
  "os_path_join a b =
     (if b \<noteq> [] \<and> hd b = CHR ''/'' then b
      else if a = [] \<or> last a = CHR ''/'' then a @ b
      else a @ ''/'' @ b)"

definition service_account_path :: "env \<Rightarrow> string" where
  "service_account_path E = os_path_join (module_dir E) ''firebase-service-account.json''"

text \<open>Python truthiness of the result of \<open>os.getenv\<close>: set, and not the empty string.\<close>

fun truthy :: "string option \<Rightarrow> bool" where
  "truthy None = False"
| "truthy (Some s) = (s \<noteq> [])"

definition os_getenv :: "env \<Rightarrow> string \<Rightarrow> (istate, string option) prog" where
  "os_getenv E name = call (Getenv name) (Inr (environ E name))"

text \<open>\<open>self.app = ...; self.db = firestore.client(); self.is_initialized = True; print; return True\<close>\<close>

definition finish_with :: "env \<Rightarrow> (istate, app) prog \<Rightarrow> string \<Rightarrow> (istate, bool) prog" where
  "finish_with E obtain_app line =
     bind obtain_app (\<lambda>a.
     bind (set_app a) (\<lambda>_.
     bind (call Firestore_client (firestore_client E)) (\<lambda>c.
     bind (set_db c) (\<lambda>_.
     bind (set_is_initialized True) (\<lambda>_.
     bind (py_print E line) (\<lambda>_.
     return True))))))"

definition initialize_with :: "env \<Rightarrow> (istate, credential) prog \<Rightarrow> (istate, app) prog" where
  "initialize_with E make_cred =
     bind make_cred (\<lambda>cred. call (Initialize_app cred) (initialize_app E cred))"

definition FIREBASE_SERVICE_ACCOUNT_KEY :: string where
  "FIREBASE_SERVICE_ACCOUNT_KEY = ''FIREBASE_SERVICE_ACCOUNT_KEY''"

definition GOOGLE_APPLICATION_CREDENTIALS :: string where
  "GOOGLE_APPLICATION_CREDENTIALS = ''GOOGLE_APPLICATION_CREDENTIALS''"

text \<open>The lines of the module, each as \<open>print\<close> receives it.\<close>

definition already_initialized_line :: string where
  "already_initialized_line = check_mark @ '' Firebase already initialized''"

definition service_account_line :: string where
  "service_account_line = check_mark @ '' Firebase initialized with service account key''"

definition environment_line :: string where
  "environment_line = check_mark @ '' Firebase initialized with environment variables''"

definition default_credentials_line :: string where
  "default_credentials_line =
     check_mark @ '' Firebase initialized with Application Default Credentials''"

definition not_configured_line :: string where
  "not_configured_line =
     warning_sign @ '' Firebase not configured. Please set up Firebase credentials.''"

definition hint_1 :: string where
  "hint_1 =
     ''   1. Download service account key as 'firebase-service-account.json'' @ [CHR 0x27]"

definition hint_2 :: string where
  "hint_2 = ''   2. Or set FIREBASE_SERVICE_ACCOUNT_KEY environment variable''"

definition hint_3 :: string where
  "hint_3 = ''   3. Or run 'python setup_firebase.py' for guided setup''"

definition initialization_failed_line :: "exception \<Rightarrow> string" where
  "initialization_failed_line e = cross_mark @ '' Firebase initialization failed: '' @ message e"

text \<open>Lines 59 to 63.\<close>

definition not_configured :: "env \<Rightarrow> (istate, bool) prog" where
  "not_configured E =
     bind (py_print E not_configured_line) (\<lambda>_.
     bind (py_print E hint_1) (\<lambda>_.
     bind (py_print E hint_2) (\<lambda>_.
     bind (py_print E hint_3) (\<lambda>_.
     return False))))"

text \<open>The body of the \<open>try\<close> block, lines 22 to 63.\<close>

definition initialize_firebase_body :: "env \<Rightarrow> (istate, bool) prog" where
  "initialize_firebase_body E =
     bind (call Apps_checked (Inr (apps_nonempty E))) (\<lambda>already.
     if already then
       finish_with E (call Get_app (get_app E)) already_initialized_line
     else
       bind (call (Path_exists (service_account_path E))
               (Inr (path_exists E (service_account_path E)))) (\<lambda>found.
       if found then
         finish_with E
           (initialize_with E
              (construct (Certificate_of_path (service_account_path E))
                 (certificate_of_path E (service_account_path E))
                 (Certificate_path (service_account_path E))))
           service_account_line
       else
         bind (os_getenv E FIREBASE_SERVICE_ACCOUNT_KEY) (\<lambda>key.
         if truthy key then
           finish_with E
             (initialize_with E
                (bind (os_getenv E FIREBASE_SERVICE_ACCOUNT_KEY) (\<lambda>text.
                 bind (case text of
                         None \<Rightarrow> raise (Exception ''TypeError'')
                       | Some t \<Rightarrow> call (Json_loads t) (json_loads E t)) (\<lambda>info.
                 construct (Certificate_of_info info) (certificate_of_info E info)
                   (Certificate_info info)))))
             environment_line
         else
           bind (os_getenv E GOOGLE_APPLICATION_CREDENTIALS) (\<lambda>gac.
           if truthy gac then
             finish_with E
               (initialize_with E
                  (construct Application_default (application_default E) ApplicationDefault))
               default_credentials_line
           else not_configured E))))"

definition initialize_firebase :: "env \<Rightarrow> (istate, bool) prog" where
  "initialize_firebase E =
     try_except (initialize_firebase_body E)
       (\<lambda>e. bind (py_print E (initialization_failed_line e)) (\<lambda>_.
             return False))"

text \<open>\<open>__init__\<close>: three assignments, then the call whose result is dropped.\<close>

definition FirebaseConfig_init :: "env \<Rightarrow> (exception + FirebaseConfig) \<times> event list" where
  "FirebaseConfig_init E =
     (case initialize_firebase E (\<lparr>app = None, db = None, is_initialized = False\<rparr>, []) of
        (Inl e, (self, tr)) \<Rightarrow> (Inl e, tr)
      | (Inr _, (self, tr)) \<Rightarrow> (Inr self, tr))"

definition is_available :: "FirebaseConfig \<Rightarrow> bool" where
  "is_available self = (is_initialized self \<and> db self \<noteq> None)"

definition get_firestore_client :: "FirebaseConfig \<Rightarrow> client option" where
  "get_firestore_client self = (if is_available self then db self else None)"

section \<open>create_sample_data\<close>

text \<open>
  The Firestore database as the module sees it: every collection is the list of its
  documents in the order they were added. The counters say how many requests were sent,
  how many documents queries brought back, and how often the clock and the random
  generator were read; \<open>stdout\<close> is what was printed.
\<close>

record world =
  store :: "string \<Rightarrow> document list"
  io_calls :: nat
  docs_read :: nat
  clock_reads :: nat
  random_draws :: nat
  stdout :: "string list"

text \<open>\<open>print(line)\<close>: it raises, and prints nothing, when standard output refuses the line.\<close>

definition print_line :: "env \<Rightarrow> string \<Rightarrow> (world, unit) prog" where
  "print_line E line =
     (\<lambda>w. case print_fault E line of
             Some e \<Rightarrow> (Inl e, w)
           | None \<Rightarrow> (Inr (), w\<lparr>stdout := stdout w @ [line]\<rparr>))"

definition not_available_line :: string where
  "not_available_line = cross_mark @ '' Firebase not available, cannot create sample data''"

definition already_exists_line :: string where
  "already_exists_line = bar_chart @ '' Sample data already exists''"

definition creating_line :: string where
  "creating_line = bar_chart @ '' Creating sample sensor data...''"

definition created_line :: string where
  "created_line = check_mark @ '' Sample data created successfully''"

definition error_line :: "exception \<Rightarrow> string" where
  "error_line e = cross_mark @ '' Error creating sample data: '' @ message e"

definition datetime_now :: "env \<Rightarrow> (world, int) prog" where
  "datetime_now E = (\<lambda>w. (Inr (now E (clock_reads w)), w\<lparr>clock_reads := Suc (clock_reads w)\<rparr>))"

text \<open>\<open>random.uniform(a, b)\<close> is \<open>a + (b - a) * random()\<close>.\<close>

definition random_uniform :: "env \<Rightarrow> rat \<Rightarrow> rat \<Rightarrow> (world, rat) prog" where
  "random_uniform E a b =
     (\<lambda>w. (Inr (a + (b - a) * random E (random_draws w)),
           w\<lparr>random_draws := Suc (random_draws w)\<rparr>))"

text \<open>\<open>collection(name).limit(n).get()\<close>: one request, at most \<open>n\<close> documents come back.\<close>

definition query_get :: "env \<Rightarrow> string \<Rightarrow> nat \<Rightarrow> (world, document list) prog" where
  "query_get E name n =
     (\<lambda>w. case firestore_fault E (io_calls w) of
             Some e \<Rightarrow> (Inl e, w\<lparr>io_calls := Suc (io_calls w)\<rparr>)
           | None \<Rightarrow>
               (Inr (take n (store w name)),
                w\<lparr>io_calls := Suc (io_calls w),
                  docs_read := docs_read w + length (take n (store w name))\<rparr>))"

text \<open>\<open>collection(name).add(doc)\<close>: one request; a request that raises stores nothing.\<close>

definition collection_add :: "env \<Rightarrow> string \<Rightarrow> document \<Rightarrow> (world, unit) prog" where
  "collection_add E name doc =
     (\<lambda>w. case firestore_fault E (io_calls w) of
             Some e \<Rightarrow> (Inl e, w\<lparr>io_calls := Suc (io_calls w)\<rparr>)
           | None \<Rightarrow>
               (Inr (),
                w\<lparr>io_calls := Suc (io_calls w),
                  store := (store w)(name := store w name @ [doc])\<rparr>))"

text \<open>\<open>timedelta(days, hours, minutes)\<close> in microseconds.\<close>

definition timedelta :: "int \<Rightarrow> int \<Rightarrow> int \<Rightarrow> int" where
  "timedelta days hours minutes = (((days * 24 + hours) * 60 + minutes) * 60) * 1000000"

text \<open>Python's \<open>round(x, ndigits)\<close>: to the nearest multiple of \<open>10^-ndigits\<close>, ties to even.\<close>

definition round_half_even :: "rat \<Rightarrow> int" where
  "round_half_even q =
     (let f = \<lfloor>q\<rfloor>; d = q - of_int f
      in if d < 1 / 2 then f else if 1 / 2 < d then f + 1 else if even f then f else f + 1)"

definition py_round :: "rat \<Rightarrow> nat \<Rightarrow> rat" where
  "py_round x ndigits = of_int (round_half_even (x * 10 ^ ndigits)) / 10 ^ ndigits"

definition sample_data :: "int \<Rightarrow> rat \<Rightarrow> rat \<Rightarrow> rat \<Rightarrow> document" where
  "sample_data timestamp t d a =
     [(''timestamp'', VDatetime timestamp),
      (''temperature'', VFloat (py_round t 1)),
      (''dissolved_oxygen'', VFloat (py_round d 2)),
      (''ammonia'', VFloat (py_round a 3)),
      (''location'', VStr ''Tank A''),
      (''sensor_id'', VStr ''SENSOR_001'')]"

text \<open>One pass through the body of \<open>for hours_ago in range(24)\<close>.\<close>

definition sensor_step :: "env \<Rightarrow> nat \<Rightarrow> (world, unit) prog" where
  "sensor_step E hours_ago =
     bind (datetime_now E) (\<lambda>n.
     bind (random_uniform E 20 30) (\<lambda>t.
     bind (random_uniform E 4 12) (\<lambda>d.
     bind (random_uniform E 0 5) (\<lambda>a.
     collection_add E ''sensor_data''
       (sample_data (n - timedelta 0 (int hours_ago) 0) t d a)))))"

definition sample_alerts :: "int \<Rightarrow> int \<Rightarrow> int \<Rightarrow> document list" where
  "sample_alerts n1 n2 n3 =
     [[(''timestamp'', VDatetime (n1 - timedelta 0 0 10)),
       (''type'', VStr ''warning''),
       (''message'', VStr ''Ammonia level approaching lower threshold''),
       (''sensor_id'', VStr ''SENSOR_001''),
       (''value'', VFloat (5 / 2)),
       (''threshold'', VFloat 5),
       (''acknowledged'', VBool False)],
      [(''timestamp'', VDatetime (n2 - timedelta 0 2 0)),
       (''type'', VStr ''info''),
       (''message'', VStr ''Temperature sensor calibration completed''),
       (''sensor_id'', VStr ''SENSOR_002''),
       (''acknowledged'', VBool True)],
      [(''timestamp'', VDatetime (n3 - timedelta 0 4 0)),
       (''type'', VStr ''success''),
       (''message'', VStr ''Water quality parameters optimal''),
       (''sensor_id'', VStr ''SENSOR_001''),
       (''acknowledged'', VBool True)]]"

text \<open>\<open>datetime(2024, 1, 15)\<close> on the scale of \<open>now\<close>: day 19737 after 1 January 1970.\<close>

definition installation_date :: int where
  "installation_date = 19737 * 86400 * 1000000"

definition system_settings :: "int \<Rightarrow> int \<Rightarrow> int \<Rightarrow> document" where
  "system_settings n1 n2 n3 =
     [(''tank_settings'', VDict
         [(''tank_a'', VDict
            [(''name'', VStr ''Tank A - Main Production''),
             (''capacity_liters'', VInt 10000),
             (''fish_species'', VStr ''Atlantic Salmon''),
             (''fish_count'', VInt 500),
             (''optimal_ammonia_range'', VList [VInt 0, VFloat 1]),
             (''optimal_temp_range'', VList [VInt 18, VInt 24]),
             (''optimal_do_range'', VList [VInt 6, VInt 12])])]),
      (''alert_thresholds'', VDict
         [(''ammonia_min'', VInt 0),
          (''ammonia_max'', VFloat 1),
          (''temp_min'', VInt 18),
          (''temp_max'', VInt 30),
          (''do_min'', VInt 4),
          (''do_max'', VInt 12)]),
      (''system_info'', VDict
         [(''installation_date'', VDatetime installation_date),
          (''last_maintenance'', VDatetime (n1 - timedelta 3 0 0)),
          (''next_maintenance'', VDatetime (n2 + timedelta 27 0 0)),
          (''firmware_version'', VStr ''v2.1.3'')]),
      (''created_at'', VDatetime n3)]"

text \<open>Lines 100 to 112: the readings of the past 24 hours.\<close>

definition create_sensor_data :: "env \<Rightarrow> (world, unit) prog" where
  "create_sensor_data E = for_each (sensor_step E) [0..<24]"

text \<open>Lines 115 to 143: the list of alerts is built first, then added one by one.\<close>

definition create_alerts :: "env \<Rightarrow> (world, unit) prog" where
  "create_alerts E =
     bind (datetime_now E) (\<lambda>n1.
     bind (datetime_now E) (\<lambda>n2.
     bind (datetime_now E) (\<lambda>n3.
     for_each (collection_add E ''alerts'') (sample_alerts n1 n2 n3))))"

text \<open>Lines 146 to 175.\<close>

definition create_settings :: "env \<Rightarrow> (world, unit) prog" where
  "create_settings E =
     bind (datetime_now E) (\<lambda>n1.
     bind (datetime_now E) (\<lambda>n2.
     bind (datetime_now E) (\<lambda>n3.
     collection_add E ''system_settings'' (system_settings n1 n2 n3))))"

text \<open>The body of the \<open>try\<close> block, lines 86 to 178.\<close>

definition create_sample_data_body :: "env \<Rightarrow> (world, bool) prog" where
  "create_sample_data_body E =
     bind (query_get E ''sensor_data'' 1) (\<lambda>existing_data.
     if length existing_data > 0 then
       bind (print_line E already_exists_line) (\<lambda>_. return True)
     else
       bind (print_line E creating_line) (\<lambda>_.
       bind (create_sensor_data E) (\<lambda>_.
       bind (create_alerts E) (\<lambda>_.
       bind (create_settings E) (\<lambda>_.
       bind (print_line E created_line) (\<lambda>_.
       return True))))))"

text \<open>The guard and its print (lines 81 to 83) stand before the \<open>try\<close>.\<close>

definition create_sample_data :: "env \<Rightarrow> FirebaseConfig \<Rightarrow> (world, bool) prog" where
  "create_sample_data E self =
     (if \<not> is_available self then
        bind (print_line E not_available_line) (\<lambda>_.
        return False)
      else
        try_except (create_sample_data_body E)
          (\<lambda>e. bind (print_line E (error_line e)) (\<lambda>_.
                return False)))"

text \<open>The module's last line: \<open>firebase_config = FirebaseConfig()\<close>.\<close>

definition firebase_config :: "env \<Rightarrow> (exception + FirebaseConfig) \<times> event list" where
  "firebase_config E = FirebaseConfig_init E"

section \<open>Vocabulary of the properties\<close>

text \<open>Standard output takes every line: no \<open>print\<close> raises.\<close>

definition console_ok :: "env \<Rightarrow> bool" where
  "console_ok E = (\<forall>line. print_fault E line = None)"

text \<open>What a call of \<open>initialize_firebase\<close> on an object asked of its collaborators.\<close>

definition interactions :: "env \<Rightarrow> FirebaseConfig \<Rightarrow> event list" where
  "interactions E self = snd (snd (initialize_firebase E (self, [])))"

fun reads_environment :: "event \<Rightarrow> bool" where
  "reads_environment (Getenv _) = True"
| "reads_environment _ = False"

fun tries_credentials :: "event \<Rightarrow> bool" where
  "tries_credentials (Path_exists _) = True"
| "tries_credentials (Getenv _) = True"
| "tries_credentials (Json_loads _) = True"
| "tries_credentials (Certificate_of_path _) = True"
| "tries_credentials (Certificate_of_info _) = True"
| "tries_credentials Application_default = True"
| "tries_credentials (Initialize_app _) = True"
| "tries_credentials _ = False"

text \<open>An event that belongs to a credential strategy other than the local file at \<open>p\<close>.\<close>

fun beside_local_file :: "string \<Rightarrow> event \<Rightarrow> bool" where
  "beside_local_file p (Initialize_app c) = (c \<noteq> Certificate_path p)"
| "beside_local_file p (Getenv _) = True"
| "beside_local_file p (Json_loads _) = True"
| "beside_local_file p (Certificate_of_info _) = True"
| "beside_local_file p Application_default = True"
| "beside_local_file p Get_app = True"
| "beside_local_file p _ = False"

text \<open>
  The reading that pass \<open>k\<close> of a loop writes when the loop starts at hour \<open>m\<close> with
  \<open>c\<close> clock readings and \<open>r\<close> random draws behind it.
\<close>

definition reading :: "env \<Rightarrow> nat \<Rightarrow> nat \<Rightarrow> nat \<Rightarrow> nat \<Rightarrow> document" where
  "reading E c r m k =
     sample_data (now E (c + k) - timedelta 0 (int (m + k)) 0)
       (20 + (30 - 20) * random E (r + 3 * k))
       (4 + (12 - 4) * random E (r + 3 * k + 1))
       (0 + (5 - 0) * random E (r + 3 * k + 2))"

text \<open>The alerts of a run that starts with \<open>c\<close> clock readings behind it.\<close>

definition alerts_of :: "env \<Rightarrow> nat \<Rightarrow> document list" where
  "alerts_of E c = sample_alerts (now E (c + 24)) (now E (c + 25)) (now E (c + 26))"

fun timestamp_of :: "document \<Rightarrow> int" where
  "timestamp_of ((k, VDatetime t) # _) = t"
| "timestamp_of _ = 0"

text \<open>Consecutive timestamps lie exactly \<open>d\<close> apart, going down.\<close>

fun spaced :: "int \<Rightarrow> int list \<Rightarrow> bool" where
  "spaced d (a # b # ts) = (a - b = d \<and> spaced d (b # ts))"
| "spaced d _ = True"

definition hour :: int where
  "hour = 3600000000"

text \<open>How often a trace looks at \<open>firebase_admin._apps\<close>, and programs that never do.\<close>

definition registry_checks :: "event list \<Rightarrow> nat" where
  "registry_checks tr = length (filter (\<lambda>ev. ev = Apps_checked) tr)"

definition leaves_registry :: "(istate, 'a) prog \<Rightarrow> bool" where
  "leaves_registry p = (\<forall>s. registry_checks (snd (snd (p s))) = registry_checks (snd s))"

section \<open>Sample environments\<close>

definition blank :: FirebaseConfig where
  "blank = \<lparr>app = None, db = None, is_initialized = False\<rparr>"

definition connected :: FirebaseConfig where
  "connected = \<lparr>app = Some (App ''[DEFAULT]''), db = Some (Client ''demo''), is_initialized = True\<rparr>"

text \<open>
  Nothing configured; a clock that moves one second between readings; requests that
  succeed; a console that takes every line.
\<close>

definition demo_env :: env where
  "demo_env =
     \<lparr>apps_nonempty = False,
      get_app = Inl (Exception ''The default Firebase app does not exist.''),
      firestore_client = Inr (Client ''demo''),
      module_dir = ''/srv/app'',
      path_exists = (\<lambda>p. False),
      environ = (\<lambda>n. None),
      json_loads = (\<lambda>t. if t = ''{}'' then Inr (Json ''{}'') else Inl (Exception ''JSONDecodeError'')),
      certificate_of_path = (\<lambda>p. None),
      certificate_of_info = (\<lambda>j. None),
      application_default = None,
      initialize_app = (\<lambda>c. Inr (App ''[DEFAULT]'')),
      now = (\<lambda>k. 1000000 * int k),
      random = (\<lambda>k. 1 / 2),
      firestore_fault = (\<lambda>k. None),
      print_fault = (\<lambda>line. None)\<rparr>"

text \<open>A console that encodes ASCII only: a line with any other byte raises.\<close>

definition ascii_only :: "string \<Rightarrow> exception option" where
  "ascii_only line =
     (if list_all (\<lambda>c. (of_char c :: nat) < 128) line then None
      else Some (Exception ''UnicodeEncodeError''))"

definition ascii_env :: env where
  "ascii_env = demo_env\<lparr>print_fault := ascii_only\<rparr>"

definition empty_world :: world where
  "empty_world =
     \<lparr>store = (\<lambda>name. []), io_calls = 0, docs_read = 0, clock_reads = 0, random_draws = 0,
      stdout = []\<rparr>"

definition reuse_env :: env where
  "reuse_env = demo_env\<lparr>apps_nonempty := True, get_app := Inr (App ''[DEFAULT]'')\<rparr>"

definition file_and_key_env :: env where
  "file_and_key_env =
     demo_env\<lparr>path_exists := (\<lambda>p. p = ''/srv/app/firebase-service-account.json''),
              environ := (\<lambda>n. if n = ''FIREBASE_SERVICE_ACCOUNT_KEY'' then Some ''{}'' else None)\<rparr>"

definition key_env :: env where
  "key_env =
     demo_env\<lparr>environ := (\<lambda>n. if n = ''FIREBASE_SERVICE_ACCOUNT_KEY'' then Some ''{}''
                              else if n = ''GOOGLE_APPLICATION_CREDENTIALS'' then Some ''/etc/adc.json''
                              else None)\<rparr>"

definition adc_env :: env where
  "adc_env =
     demo_env\<lparr>environ := (\<lambda>n. if n = ''GOOGLE_APPLICATION_CREDENTIALS'' then Some ''/etc/adc.json''
                              else None)\<rparr>"

definition malformed_env :: env where
  "malformed_env =
     demo_env\<lparr>environ := (\<lambda>n. if n = ''FIREBASE_SERVICE_ACCOUNT_KEY'' then Some ''{oops'' else None)\<rparr>"

text \<open>The SDK creates the app, then \<open>firestore.client()\<close> raises.\<close>

definition no_client_env :: env where
  "no_client_env =
     file_and_key_env\<lparr>firestore_client := Inl (Exception ''Project ID is required'')\<rparr>"

text \<open>The fourth Firestore request of a call (the third write) raises.\<close>

definition flaky_env :: env where
  "flaky_env =
     demo_env\<lparr>firestore_fault :=
       (\<lambda>k. if k = 3 then Some (Exception ''503 Deadline Exceeded'') else None)\<rparr>"

text \<open>A database that already holds two readings.\<close>

definition seeded_world :: world where
  "seeded_world =
     empty_world\<lparr>store := (\<lambda>name. if name = ''sensor_data''
                                   then [reading demo_env 0 0 0 0, reading demo_env 0 0 0 1]
                                   else [])\<rparr>"

text \<open>The collection \<open>sensor_data\<close> as a call leaves it.\<close>

definition sensor_data_after :: "env \<Rightarrow> FirebaseConfig \<Rightarrow> world \<Rightarrow> document list" where
  "sensor_data_after E self w = store (snd (create_sample_data E self w)) ''sensor_data''"

text \<open>Malformed credential JSON on the ASCII console.\<close>

definition ascii_malformed_env :: env where
  "ascii_malformed_env = malformed_env\<lparr>print_fault := ascii_only\<rparr>"

text \<open>The local credential file on the ASCII console.\<close>

definition ascii_file_env :: env where
  "ascii_file_env = file_and_key_env\<lparr>print_fault := ascii_only\<rparr>"

text \<open>Every Firestore request raises, on the ASCII console.\<close>

definition ascii_down_env :: env where
  "ascii_down_env =
     ascii_env\<lparr>firestore_fault := (\<lambda>k. Some (Exception ''503 Deadline Exceeded''))\<rparr>"

text \<open>
  The third write raises, and standard output is gone by the time the handler prints:
  the line of the handler raises.
\<close>

definition closing_env :: env where
  "closing_env =
     flaky_env\<lparr>print_fault :=
       (\<lambda>line. if line = error_line (Exception ''503 Deadline Exceeded'')
              then Some (Exception ''BrokenPipeError'') else None)\<rparr>"

section \<open>Lemmas about initialize_firebase\<close>

lemmas prog_defs = return_def raise_def bind_def try_except_def

lemmas init_defs = call_def construct_def py_print_def set_app_def set_db_def
  set_is_initialized_def os_getenv_def finish_with_def initialize_with_def not_configured_def
  initialize_firebase_body_def initialize_firebase_def

lemmas line_defs = check_mark_def warning_sign_def cross_mark_def bar_chart_def
  already_initialized_line_def service_account_line_def environment_line_def
  default_credentials_line_def not_configured_line_def hint_1_def hint_2_def hint_3_def
  initialization_failed_line_def not_available_line_def already_exists_line_def
  creating_line_def created_line_def error_line_def

lemmas sample_defs = demo_env_def reuse_env_def file_and_key_env_def key_env_def adc_env_def
  malformed_env_def no_client_env_def blank_def connected_def service_account_path_def
  ascii_env_def ascii_only_def ascii_malformed_env_def ascii_file_env_def ascii_down_env_def
  os_path_join_def FIREBASE_SERVICE_ACCOUNT_KEY_def GOOGLE_APPLICATION_CREDENTIALS_def

lemma console_okD: "console_ok E \<Longrightarrow> print_fault E line = None"
  by (simp add: console_ok_def)

lemma initialize_returns: "console_ok E \<Longrightarrow> \<exists>b. fst (initialize_firebase E s) = Inr b"
  unfolding initialize_firebase_def try_except_def bind_def return_def py_print_def
    construct_def call_def
  by (auto simp: console_okD split: prod.splits sum.splits)

lemma initialize_catches:
  "console_ok E \<Longrightarrow> fst (initialize_firebase_body E s) = Inl e \<Longrightarrow>
   fst (initialize_firebase E s) = Inr False"
  unfolding initialize_firebase_def try_except_def bind_def return_def py_print_def
    construct_def call_def
  by (auto simp: console_okD split: prod.splits sum.splits)

lemma reuse_case:
  "apps_nonempty E \<Longrightarrow>
   take 2 (interactions E self) = [Apps_checked, Get_app] \<and>
   \<not> list_ex tries_credentials (interactions E self)"
  by (auto simp: interactions_def prog_defs init_defs split: sum.splits option.splits)

lemma file_case:
  "\<not> apps_nonempty E \<Longrightarrow> path_exists E (service_account_path E) \<Longrightarrow>
   take 3 (interactions E self) =
     [Apps_checked, Path_exists (service_account_path E),
      Certificate_of_path (service_account_path E)] \<and>
   \<not> list_ex reads_environment (interactions E self) \<and>
   \<not> list_ex (beside_local_file (service_account_path E)) (interactions E self)"
  by (auto simp: interactions_def prog_defs init_defs split: sum.splits option.splits)

lemma key_case:
  "\<not> apps_nonempty E \<Longrightarrow> \<not> path_exists E (service_account_path E) \<Longrightarrow>
   environ E FIREBASE_SERVICE_ACCOUNT_KEY = Some t \<Longrightarrow> t \<noteq> [] \<Longrightarrow>
   take 5 (interactions E self) =
     [Apps_checked, Path_exists (service_account_path E), Getenv FIREBASE_SERVICE_ACCOUNT_KEY,
      Getenv FIREBASE_SERVICE_ACCOUNT_KEY, Json_loads t] \<and>
   Getenv GOOGLE_APPLICATION_CREDENTIALS \<notin> set (interactions E self) \<and>
   Application_default \<notin> set (interactions E self)"
  by (auto simp: interactions_def prog_defs init_defs FIREBASE_SERVICE_ACCOUNT_KEY_def
        GOOGLE_APPLICATION_CREDENTIALS_def split: sum.splits option.splits)

lemma default_case:
  "\<not> apps_nonempty E \<Longrightarrow> \<not> path_exists E (service_account_path E) \<Longrightarrow>
   \<not> truthy (environ E FIREBASE_SERVICE_ACCOUNT_KEY) \<Longrightarrow>
   truthy (environ E GOOGLE_APPLICATION_CREDENTIALS) \<Longrightarrow>
   take 5 (interactions E self) =
     [Apps_checked, Path_exists (service_account_path E), Getenv FIREBASE_SERVICE_ACCOUNT_KEY,
      Getenv GOOGLE_APPLICATION_CREDENTIALS, Application_default]"
  by (auto simp: interactions_def prog_defs init_defs split: sum.splits option.splits)

lemma unconfigured_case:
  "\<not> apps_nonempty E \<Longrightarrow> \<not> path_exists E (service_account_path E) \<Longrightarrow>
   \<not> truthy (environ E FIREBASE_SERVICE_ACCOUNT_KEY) \<Longrightarrow>
   \<not> truthy (environ E GOOGLE_APPLICATION_CREDENTIALS) \<Longrightarrow> console_ok E \<Longrightarrow>
   initialize_firebase E (self, tr) =
     (Inr False, self,
      tr @ [Apps_checked, Path_exists (service_account_path E),
       Getenv FIREBASE_SERVICE_ACCOUNT_KEY, Getenv GOOGLE_APPLICATION_CREDENTIALS,
       Print not_configured_line, Print hint_1, Print hint_2, Print hint_3])"
  by (simp add: prog_defs init_defs console_okD)

text \<open>Without credentials the object is not touched, whatever the console does.\<close>

lemma unconfigured_untouched:
  "\<not> apps_nonempty E \<Longrightarrow> \<not> path_exists E (service_account_path E) \<Longrightarrow>
   \<not> truthy (environ E FIREBASE_SERVICE_ACCOUNT_KEY) \<Longrightarrow>
   \<not> truthy (environ E GOOGLE_APPLICATION_CREDENTIALS) \<Longrightarrow>
   fst (initialize_firebase E (self, tr)) \<noteq> Inr True \<and>
   fst (snd (initialize_firebase E (self, tr))) = self \<and>
   take 5 (interactions E self) =
     [Apps_checked, Path_exists (service_account_path E),
      Getenv FIREBASE_SERVICE_ACCOUNT_KEY, Getenv GOOGLE_APPLICATION_CREDENTIALS,
      Print not_configured_line] \<and>
   \<not> list_ex (\<lambda>ev. ev \<in> {Get_app, Firestore_client, Application_default})
        (interactions E self)"
  by (simp add: interactions_def prog_defs init_defs split: option.split)



lemma init_trace: "snd (FirebaseConfig_init E) = interactions E blank"
  by (simp add: FirebaseConfig_init_def interactions_def blank_def split: prod.split sum.split)

lemma init_object:
  "console_ok E \<Longrightarrow>
   fst (FirebaseConfig_init E) = Inr (fst (snd (initialize_firebase E (blank, []))))"
  using initialize_returns [of E "(blank, [])"]
  by (auto simp: FirebaseConfig_init_def blank_def split: prod.split sum.split)

lemma leaves_registryD:
  assumes "leaves_registry p"
  shows "registry_checks (snd (snd (p s))) = registry_checks (snd s)"
  using assms unfolding leaves_registry_def by (rule spec)

lemma leaves_registry_return: "leaves_registry (return v)"
  by (simp add: leaves_registry_def return_def)

lemma leaves_registry_raise: "leaves_registry (raise e)"
  by (simp add: leaves_registry_def raise_def)

lemma leaves_registry_call: "ev \<noteq> Apps_checked \<Longrightarrow> leaves_registry (call ev outcome)"
  by (simp add: leaves_registry_def call_def registry_checks_def split: prod.split)

lemma leaves_registry_construct:
  "ev \<noteq> Apps_checked \<Longrightarrow> leaves_registry (construct ev fault v)"
  by (simp add: construct_def leaves_registry_call)

lemma leaves_registry_print: "leaves_registry (py_print E line)"
  by (simp add: py_print_def leaves_registry_construct)

lemma leaves_registry_getenv: "leaves_registry (os_getenv E name)"
  by (simp add: os_getenv_def leaves_registry_call)

lemma leaves_registry_set:
  "leaves_registry (set_app a)" "leaves_registry (set_db c)"
  "leaves_registry (set_is_initialized b)"
  by (simp_all add: leaves_registry_def set_app_def set_db_def set_is_initialized_def
        split: prod.split)

lemma leaves_registry_bind:
  assumes "leaves_registry m" and "\<And>v. leaves_registry (f v)"
  shows "leaves_registry (bind m f)"
  unfolding leaves_registry_def bind_def
proof
  fix s
  obtain r s' where m: "m s = (r, s')" by (cases "m s")
  have "registry_checks (snd (snd (m s))) = registry_checks (snd s)"
    using assms(1) by (rule leaves_registryD)
  then have a: "registry_checks (snd s') = registry_checks (snd s)"
    using m by simp
  show "registry_checks (snd (snd (case m s of (Inl e, s') \<Rightarrow> (Inl e, s')
          | (Inr v, s') \<Rightarrow> f v s'))) = registry_checks (snd s)"
  proof (cases r)
    case (Inl e)
    then show ?thesis using m a by simp
  next
    case (Inr v)
    have "registry_checks (snd (snd (f v s'))) = registry_checks (snd s')"
      using assms(2) [of v] by (rule leaves_registryD)
    then show ?thesis using m a Inr by simp
  qed
qed

lemma leaves_registry_try:
  assumes "leaves_registry m" and "\<And>e. leaves_registry (h e)"
  shows "leaves_registry (try_except m h)"
  unfolding leaves_registry_def try_except_def
proof
  fix s
  obtain r s' where m: "m s = (r, s')" by (cases "m s")
  have "registry_checks (snd (snd (m s))) = registry_checks (snd s)"
    using assms(1) by (rule leaves_registryD)
  then have a: "registry_checks (snd s') = registry_checks (snd s)"
    using m by simp
  show "registry_checks (snd (snd (case m s of (Inl e, s') \<Rightarrow> h e s'
          | (Inr v, s') \<Rightarrow> (Inr v, s')))) = registry_checks (snd s)"
  proof (cases r)
    case (Inl e)
    have "registry_checks (snd (snd (h e s'))) = registry_checks (snd s')"
      using assms(2) [of e] by (rule leaves_registryD)
    then show ?thesis using m a Inl by simp
  next
    case (Inr v)
    then show ?thesis using m a by simp
  qed
qed

lemma leaves_registry_finish:
  "leaves_registry p \<Longrightarrow> leaves_registry (finish_with E p line)"
  unfolding finish_with_def
  by (intro leaves_registry_bind leaves_registry_call leaves_registry_set
        leaves_registry_print leaves_registry_return) simp_all

lemma leaves_registry_initialize:
  "leaves_registry p \<Longrightarrow> leaves_registry (initialize_with E p)"
  unfolding initialize_with_def
  by (intro leaves_registry_bind leaves_registry_call) simp_all

lemma leaves_registry_not_configured: "leaves_registry (not_configured E)"
  unfolding not_configured_def
  by (intro leaves_registry_bind leaves_registry_print leaves_registry_return)

lemma leaves_registry_loads:
  "leaves_registry (case x of None \<Rightarrow> raise e | Some t \<Rightarrow> call (Json_loads t) (j t))"
  by (cases x) (simp_all add: leaves_registry_raise leaves_registry_call)

text \<open>Everything \<open>initialize_firebase\<close> does after its first test.\<close>

lemma one_registry_check: "length (filter (\<lambda>ev. ev = Apps_checked) (interactions E self)) = 1"
proof -
  let ?rest = "\<lambda>already.
     if already then
       finish_with E (call Get_app (get_app E)) already_initialized_line
     else
       bind (call (Path_exists (service_account_path E))
               (Inr (path_exists E (service_account_path E)))) (\<lambda>found.
       if found then
         finish_with E
           (initialize_with E
              (construct (Certificate_of_path (service_account_path E))
                 (certificate_of_path E (service_account_path E))
                 (Certificate_path (service_account_path E))))
           service_account_line
       else
         bind (os_getenv E FIREBASE_SERVICE_ACCOUNT_KEY) (\<lambda>key.
         if truthy key then
           finish_with E
             (initialize_with E
                (bind (os_getenv E FIREBASE_SERVICE_ACCOUNT_KEY) (\<lambda>text.
                 bind (case text of
                         None \<Rightarrow> raise (Exception ''TypeError'')
                       | Some t \<Rightarrow> call (Json_loads t) (json_loads E t)) (\<lambda>info.
                 construct (Certificate_of_info info) (certificate_of_info E info)
                   (Certificate_info info)))))
             environment_line
         else
           bind (os_getenv E GOOGLE_APPLICATION_CREDENTIALS) (\<lambda>gac.
           if truthy gac then
             finish_with E
               (initialize_with E
                  (construct Application_default (application_default E) ApplicationDefault))
               default_credentials_line
           else not_configured E)))"
  have from_file: "leaves_registry (finish_with E
           (initialize_with E
              (construct (Certificate_of_path (service_account_path E))
                 (certificate_of_path E (service_account_path E))
                 (Certificate_path (service_account_path E))))
           service_account_line)"
    by (intro leaves_registry_finish leaves_registry_initialize leaves_registry_construct) simp
  have key: "leaves_registry (finish_with E
             (initialize_with E
                (bind (os_getenv E FIREBASE_SERVICE_ACCOUNT_KEY) (\<lambda>text.
                 bind (case text of
                         None \<Rightarrow> raise (Exception ''TypeError'')
                       | Some t \<Rightarrow> call (Json_loads t) (json_loads E t)) (\<lambda>info.
                 construct (Certificate_of_info info) (certificate_of_info E info)
                   (Certificate_info info)))))
             environment_line)"
    by (intro leaves_registry_finish leaves_registry_initialize leaves_registry_bind
          leaves_registry_getenv leaves_registry_loads leaves_registry_construct) simp
  have adc: "leaves_registry (finish_with E
               (initialize_with E
                  (construct Application_default (application_default E) ApplicationDefault))
               default_credentials_line)"
    by (intro leaves_registry_finish leaves_registry_initialize leaves_registry_construct) simp
  have reuse: "leaves_registry (finish_with E (call Get_app (get_app E))
      already_initialized_line)"
    by (intro leaves_registry_finish leaves_registry_call) simp
  have gac: "leaves_registry (if truthy g then finish_with E
               (initialize_with E
                  (construct Application_default (application_default E) ApplicationDefault))
               default_credentials_line else not_configured E)" for g
    using adc leaves_registry_not_configured by simp
  have rest: "leaves_registry (?rest already)" for already
  proof (cases already)
    case True
    then show ?thesis using reuse by simp
  next
    case False
    have "leaves_registry (bind (call (Path_exists (service_account_path E))
               (Inr (path_exists E (service_account_path E)))) (\<lambda>found.
       if found then
         finish_with E
           (initialize_with E
              (construct (Certificate_of_path (service_account_path E))
                 (certificate_of_path E (service_account_path E))
                 (Certificate_path (service_account_path E))))
           service_account_line
       else
         bind (os_getenv E FIREBASE_SERVICE_ACCOUNT_KEY) (\<lambda>key.
         if truthy key then
           finish_with E
             (initialize_with E
                (bind (os_getenv E FIREBASE_SERVICE_ACCOUNT_KEY) (\<lambda>text.
                 bind (case text of
                         None \<Rightarrow> raise (Exception ''TypeError'')
                       | Some t \<Rightarrow> call (Json_loads t) (json_loads E t)) (\<lambda>info.
                 construct (Certificate_of_info info) (certificate_of_info E info)
                   (Certificate_info info)))))
             environment_line
         else
           bind (os_getenv E GOOGLE_APPLICATION_CREDENTIALS) (\<lambda>gac.
           if truthy gac then
             finish_with E
               (initialize_with E
                  (construct Application_default (application_default E) ApplicationDefault))
               default_credentials_line
           else not_configured E))))"
    proof (rule leaves_registry_bind)
      show "leaves_registry (call (Path_exists (service_account_path E))
               (Inr (path_exists E (service_account_path E))))"
        by (rule leaves_registry_call) simp
    next
      fix found
      have inner: "leaves_registry (bind (os_getenv E FIREBASE_SERVICE_ACCOUNT_KEY) (\<lambda>key.
         if truthy key then
           finish_with E
             (initialize_with E
                (bind (os_getenv E FIREBASE_SERVICE_ACCOUNT_KEY) (\<lambda>text.
                 bind (case text of
                         None \<Rightarrow> raise (Exception ''TypeError'')
                       | Some t \<Rightarrow> call (Json_loads t) (json_loads E t)) (\<lambda>info.
                 construct (Certificate_of_info info) (certificate_of_info E info)
                   (Certificate_info info)))))
             environment_line
         else
           bind (os_getenv E GOOGLE_APPLICATION_CREDENTIALS) (\<lambda>gac.
           if truthy gac then
             finish_with E
               (initialize_with E
                  (construct Application_default (application_default E) ApplicationDefault))
               default_credentials_line
           else not_configured E)))"
      proof (rule leaves_registry_bind [OF leaves_registry_getenv])
        fix k
        have "leaves_registry (bind (os_getenv E GOOGLE_APPLICATION_CREDENTIALS) (\<lambda>gac.
           if truthy gac then
             finish_with E
               (initialize_with E
                  (construct Application_default (application_default E) ApplicationDefault))
               default_credentials_line
           else not_configured E))"
          by (rule leaves_registry_bind [OF leaves_registry_getenv]) (rule gac)
        then show "leaves_registry (if truthy k then
           finish_with E
             (initialize_with E
                (bind (os_getenv E FIREBASE_SERVICE_ACCOUNT_KEY) (\<lambda>text.
                 bind (case text of
                         None \<Rightarrow> raise (Exception ''TypeError'')
                       | Some t \<Rightarrow> call (Json_loads t) (json_loads E t)) (\<lambda>info.
                 construct (Certificate_of_info info) (certificate_of_info E info)
                   (Certificate_info info)))))
             environment_line
         else
           bind (os_getenv E GOOGLE_APPLICATION_CREDENTIALS) (\<lambda>gac.
           if truthy gac then
             finish_with E
               (initialize_with E
                  (construct Application_default (application_default E) ApplicationDefault))
               default_credentials_line
           else not_configured E))"
          using key by simp
      qed
      show "leaves_registry (if found then
         finish_with E
           (initialize_with E
              (construct (Certificate_of_path (service_account_path E))
                 (certificate_of_path E (service_account_path E))
                 (Certificate_path (service_account_path E))))
           service_account_line
       else
         bind (os_getenv E FIREBASE_SERVICE_ACCOUNT_KEY) (\<lambda>key.
         if truthy key then
           finish_with E
             (initialize_with E
                (bind (os_getenv E FIREBASE_SERVICE_ACCOUNT_KEY) (\<lambda>text.
                 bind (case text of
                         None \<Rightarrow> raise (Exception ''TypeError'')
                       | Some t \<Rightarrow> call (Json_loads t) (json_loads E t)) (\<lambda>info.
                 construct (Certificate_of_info info) (certificate_of_info E info)
                   (Certificate_info info)))))
             environment_line
         else
           bind (os_getenv E GOOGLE_APPLICATION_CREDENTIALS) (\<lambda>gac.
           if truthy gac then
             finish_with E
               (initialize_with E
                  (construct Application_default (application_default E) ApplicationDefault))
               default_credentials_line
           else not_configured E)))"
        using from_file inner by simp
    qed
    then show ?thesis using False by simp
  qed
  have handler: "leaves_registry (bind (py_print E (initialization_failed_line e))
      (\<lambda>_. return False))" for e
    by (intro leaves_registry_bind leaves_registry_print leaves_registry_return)
  have body: "initialize_firebase_body E =
      bind (call Apps_checked (Inr (apps_nonempty E))) ?rest"
    by (simp add: initialize_firebase_body_def)
  have after: "registry_checks (snd (snd (?rest (apps_nonempty E) (self, [Apps_checked])))) = 1"
    using leaves_registryD [OF rest [of "apps_nonempty E"], of "(self, [Apps_checked])"]
    by (simp add: registry_checks_def)
  have tried: "registry_checks (snd (snd (initialize_firebase_body E (self, [])))) = 1"
    unfolding body using after by (simp add: bind_def call_def)
  obtain r s' where run: "initialize_firebase_body E (self, []) = (r, s')"
    by (cases "initialize_firebase_body E (self, [])")
  have "registry_checks (snd (snd (initialize_firebase E (self, [])))) = 1"
  proof (cases r)
    case (Inl e)
    have "registry_checks (snd (snd (bind (py_print E (initialization_failed_line e))
            (\<lambda>_. return False) s'))) = registry_checks (snd s')"
      using handler [of e] by (rule leaves_registryD)
    then show ?thesis
      using tried run Inl by (simp add: initialize_firebase_def try_except_def)
  next
    case (Inr b)
    then show ?thesis
      using tried run by (simp add: initialize_firebase_def try_except_def)
  qed
  then show ?thesis
    by (simp add: interactions_def registry_checks_def)
qed

section \<open>Lemmas about create_sample_data\<close>

lemmas world_defs = print_line_def datetime_now_def random_uniform_def query_get_def
  collection_add_def

lemma sensor_step_ok:
  "firestore_fault E (io_calls w) = None \<Longrightarrow>
   sensor_step E m w =
     (Inr (),
      w\<lparr>clock_reads := clock_reads w + 1, random_draws := random_draws w + 3,
        io_calls := io_calls w + 1,
        store := (store w)(''sensor_data'' := store w ''sensor_data'' @
                   [reading E (clock_reads w) (random_draws w) m 0])\<rparr>)"
  by (simp add: sensor_step_def prog_defs world_defs reading_def)

lemma sensor_step_fail:
  "firestore_fault E (io_calls w) = Some e \<Longrightarrow>
   sensor_step E m w =
     (Inl e,
      w\<lparr>clock_reads := clock_reads w + 1, random_draws := random_draws w + 3,
        io_calls := io_calls w + 1\<rparr>)"
  by (simp add: sensor_step_def prog_defs world_defs)

lemma reading_shift: "reading E (Suc c) (r + 3) (Suc m) k = reading E c r m (Suc k)"
  by (simp add: reading_def ac_simps)

lemma upt_head: "[m..<m + Suc n] = m # [Suc m..<Suc m + n]"
  by (simp add: upt_rec)

lemma loop_ok:
  "\<forall>i<n. firestore_fault E (io_calls w + i) = None \<Longrightarrow>
   for_each (sensor_step E) [m..<m + n] w =
     (Inr (),
      w\<lparr>clock_reads := clock_reads w + n, random_draws := random_draws w + 3 * n,
        io_calls := io_calls w + n,
        store := (store w)(''sensor_data'' := store w ''sensor_data'' @
                   map (reading E (clock_reads w) (random_draws w) m) [0..<n])\<rparr>)"
proof (induction n arbitrary: w m)
  case 0
  then show ?case by (simp add: return_def)
next
  case (Suc n)
  have f0: "firestore_fault E (io_calls w) = None"
    using Suc.prems by force
  let ?w1 = "w\<lparr>clock_reads := clock_reads w + 1, random_draws := random_draws w + 3,
                io_calls := io_calls w + 1,
                store := (store w)(''sensor_data'' := store w ''sensor_data'' @
                           [reading E (clock_reads w) (random_draws w) m 0])\<rparr>"
  have rest: "\<forall>i<n. firestore_fault E (io_calls ?w1 + i) = None"
    using Suc.prems by auto
  show ?case
    unfolding upt_head for_each.simps
    apply (simp only: bind_def sensor_step_ok [OF f0] prod.case sum.case)
    apply (simp only: Suc.IH [OF rest])
    apply (auto simp add: map_upt_Suc reading_shift fun_eq_iff simp del: upt_Suc)
    done
qed

lemma loop_fail:
  "k < n \<Longrightarrow> \<forall>i<k. firestore_fault E (io_calls w + i) = None \<Longrightarrow>
   firestore_fault E (io_calls w + k) = Some e \<Longrightarrow>
   for_each (sensor_step E) [m..<m + n] w =
     (Inl e,
      w\<lparr>clock_reads := clock_reads w + Suc k, random_draws := random_draws w + 3 * Suc k,
        io_calls := io_calls w + Suc k,
        store := (store w)(''sensor_data'' := store w ''sensor_data'' @
                   map (reading E (clock_reads w) (random_draws w) m) [0..<k])\<rparr>)"
proof (induction n arbitrary: w m k)
  case 0
  then show ?case by simp
next
  case (Suc n)
  show ?case
  proof (cases k)
    case 0
    with Suc.prems have f0: "firestore_fault E (io_calls w) = Some e" by simp
    show ?thesis
      unfolding upt_head for_each.simps
      by (simp add: bind_def sensor_step_fail [OF f0] 0)
  next
    case (Suc k')
    have f0: "firestore_fault E (io_calls w) = None"
      using Suc.prems Suc by force
    let ?w1 = "w\<lparr>clock_reads := clock_reads w + 1, random_draws := random_draws w + 3,
                  io_calls := io_calls w + 1,
                  store := (store w)(''sensor_data'' := store w ''sensor_data'' @
                             [reading E (clock_reads w) (random_draws w) m 0])\<rparr>"
    have k': "k' < n" using Suc.prems Suc by simp
    have rest: "\<forall>i<k'. firestore_fault E (io_calls ?w1 + i) = None"
      using Suc.prems Suc by auto
    have bad: "firestore_fault E (io_calls ?w1 + k') = Some e"
      using Suc.prems Suc by simp
    show ?thesis
      unfolding upt_head for_each.simps
      apply (simp only: bind_def sensor_step_ok [OF f0] prod.case sum.case)
      apply (simp only: Suc.IH [OF k' rest bad])
      apply (auto simp add: Suc map_upt_Suc reading_shift fun_eq_iff simp del: upt_Suc)
      done
  qed
qed

lemma adds_ok:
  "\<forall>i<length ds. firestore_fault E (io_calls w + i) = None \<Longrightarrow>
   for_each (collection_add E name) ds w =
     (Inr (), w\<lparr>io_calls := io_calls w + length ds,
                store := (store w)(name := store w name @ ds)\<rparr>)"
proof (induction ds arbitrary: w)
  case Nil
  then show ?case by (simp add: return_def)
next
  case (Cons d ds)
  have f0: "firestore_fault E (io_calls w) = None"
    using Cons.prems by force
  let ?w1 = "w\<lparr>io_calls := Suc (io_calls w), store := (store w)(name := store w name @ [d])\<rparr>"
  have rest: "\<forall>i<length ds. firestore_fault E (io_calls ?w1 + i) = None"
    using Cons.prems by auto
  have step: "collection_add E name d w = (Inr (), ?w1)"
    by (simp add: collection_add_def f0)
  show ?case
    apply (simp only: for_each.simps bind_def step prod.case sum.case)
    apply (simp only: Cons.IH [OF rest])
    apply (auto simp add: fun_eq_iff)
    done
qed

lemma adds_fail:
  "k < length ds \<Longrightarrow> \<forall>i<k. firestore_fault E (io_calls w + i) = None \<Longrightarrow>
   firestore_fault E (io_calls w + k) = Some e \<Longrightarrow>
   for_each (collection_add E name) ds w =
     (Inl e, w\<lparr>io_calls := io_calls w + Suc k,
                store := (store w)(name := store w name @ take k ds)\<rparr>)"
proof (induction ds arbitrary: w k)
  case Nil
  then show ?case by simp
next
  case (Cons d ds)
  show ?case
  proof (cases k)
    case 0
    with Cons.prems have f0: "firestore_fault E (io_calls w) = Some e" by simp
    show ?thesis
      by (simp add: bind_def collection_add_def f0 0)
  next
    case (Suc k')
    have f0: "firestore_fault E (io_calls w) = None"
      using Cons.prems Suc by force
    let ?w1 = "w\<lparr>io_calls := Suc (io_calls w), store := (store w)(name := store w name @ [d])\<rparr>"
    have k': "k' < length ds" using Cons.prems Suc by simp
    have rest: "\<forall>i<k'. firestore_fault E (io_calls ?w1 + i) = None"
      using Cons.prems Suc by auto
    have bad: "firestore_fault E (io_calls ?w1 + k') = Some e"
      using Cons.prems Suc by simp
    have step: "collection_add E name d w = (Inr (), ?w1)"
      by (simp add: collection_add_def f0)
    show ?thesis
      apply (simp only: for_each.simps bind_def step prod.case sum.case)
      apply (simp only: Cons.IH [OF k' rest bad])
      apply (auto simp add: Suc fun_eq_iff)
      done
  qed
qed

lemma adds_elsewhere:
  "other \<noteq> name \<Longrightarrow> store (snd (for_each (collection_add E name) ds w)) other = store w other"
proof (induction ds arbitrary: w)
  case Nil
  then show ?case by (simp add: return_def)
next
  case (Cons d ds)
  show ?case
  proof (cases "firestore_fault E (io_calls w)")
    case None
    then show ?thesis
      using Cons.IH [OF Cons.prems] Cons.prems
      by (simp add: bind_def collection_add_def)
  next
    case (Some e)
    then show ?thesis
      by (simp add: bind_def collection_add_def)
  qed
qed

lemma alerts_keep_sensor_data:
  "store (snd (create_alerts E w)) ''sensor_data'' = store w ''sensor_data''"
  using adds_elsewhere [of "''sensor_data''" "''alerts''"]
  by (simp add: create_alerts_def bind_def datetime_now_def)

lemma settings_keep_sensor_data:
  "store (snd (create_settings E w)) ''sensor_data'' = store w ''sensor_data''"
  by (simp add: create_settings_def bind_def datetime_now_def collection_add_def
        split: option.split)

lemma keep_after_alerts:
  "create_alerts E w = (r, w') \<Longrightarrow> store w' ''sensor_data'' = store w ''sensor_data''"
  using alerts_keep_sensor_data [of E w] by simp

lemma keep_after_settings:
  "create_settings E w = (r, w') \<Longrightarrow> store w' ''sensor_data'' = store w ''sensor_data''"
  using settings_keep_sensor_data [of E w] by simp

lemma alerts_ok:
  "\<forall>i<3. firestore_fault E (io_calls w + i) = None \<Longrightarrow>
   create_alerts E w =
     (Inr (),
      w\<lparr>clock_reads := clock_reads w + 3, io_calls := io_calls w + 3,
        store := (store w)(''alerts'' := store w ''alerts'' @
                   sample_alerts (now E (clock_reads w)) (now E (clock_reads w + 1))
                     (now E (clock_reads w + 2)))\<rparr>)"
proof -
  assume ok: "\<forall>i<3. firestore_fault E (io_calls w + i) = None"
  let ?ds = "sample_alerts (now E (clock_reads w)) (now E (clock_reads w + 1))
               (now E (clock_reads w + 2))"
  let ?w = "w\<lparr>clock_reads := Suc (Suc (Suc (clock_reads w)))\<rparr>"
  have len: "length ?ds = 3" by (simp add: sample_alerts_def)
  have "\<forall>i<length ?ds. firestore_fault E (io_calls ?w + i) = None"
    using ok len by simp
  from adds_ok [OF this, of "''alerts''"] len show ?thesis
    by (simp add: create_alerts_def bind_def datetime_now_def numeral_3_eq_3)
qed

lemma alerts_fail:
  "k < 3 \<Longrightarrow> \<forall>i<k. firestore_fault E (io_calls w + i) = None \<Longrightarrow>
   firestore_fault E (io_calls w + k) = Some e \<Longrightarrow>
   create_alerts E w =
     (Inl e,
      w\<lparr>clock_reads := clock_reads w + 3, io_calls := io_calls w + Suc k,
        store := (store w)(''alerts'' := store w ''alerts'' @
                   take k (sample_alerts (now E (clock_reads w)) (now E (clock_reads w + 1))
                     (now E (clock_reads w + 2))))\<rparr>)"
proof -
  assume k: "k < 3" and ok: "\<forall>i<k. firestore_fault E (io_calls w + i) = None"
    and bad: "firestore_fault E (io_calls w + k) = Some e"
  let ?ds = "sample_alerts (now E (clock_reads w)) (now E (clock_reads w + 1))
               (now E (clock_reads w + 2))"
  let ?w = "w\<lparr>clock_reads := Suc (Suc (Suc (clock_reads w)))\<rparr>"
  have len: "k < length ?ds" using k by (simp add: sample_alerts_def)
  have ok': "\<forall>i<k. firestore_fault E (io_calls ?w + i) = None"
    using ok by simp
  have bad': "firestore_fault E (io_calls ?w + k) = Some e"
    using bad by simp
  from adds_fail [OF len ok' bad', of "''alerts''"] show ?thesis
    by (simp add: create_alerts_def bind_def datetime_now_def numeral_3_eq_3)
qed

lemma round_half_even_bounds:
  assumes "of_int A \<le> q" and "q \<le> of_int B"
  shows "A \<le> round_half_even q \<and> round_half_even q \<le> B"
proof -
  have lo: "A \<le> \<lfloor>q\<rfloor>" using assms(1) by (simp add: le_floor_iff)
  show ?thesis
  proof (cases "q = of_int B")
    case True
    then show ?thesis using lo by (simp add: round_half_even_def)
  next
    case False
    then have "q < of_int B" using assms(2) by simp
    then have "\<lfloor>q\<rfloor> < B" by (simp add: floor_less_iff)
    then show ?thesis using lo by (auto simp: round_half_even_def Let_def)
  qed
qed

lemma py_round_bounds:
  assumes "of_int A \<le> x" and "x \<le> of_int B"
  shows "of_int A \<le> py_round x n \<and> py_round x n \<le> of_int B"
proof -
  have p: "(0::rat) < 10 ^ n" by simp
  have lo: "of_int (A * 10 ^ n) \<le> x * 10 ^ n"
    using assms(1) p by (simp add: mult_right_mono)
  have hi: "x * 10 ^ n \<le> of_int (B * 10 ^ n)"
    using assms(2) p by (simp add: mult_right_mono)
  from round_half_even_bounds [OF lo hi]
  have "A * 10 ^ n \<le> round_half_even (x * 10 ^ n)"
    and "round_half_even (x * 10 ^ n) \<le> B * 10 ^ n" by simp_all
  then have "(of_int (A * 10 ^ n) :: rat) \<le> of_int (round_half_even (x * 10 ^ n))"
    and "(of_int (round_half_even (x * 10 ^ n)) :: rat) \<le> of_int (B * 10 ^ n)"
    by (simp_all only: of_int_le_iff)
  then show ?thesis
    using p by (simp add: py_round_def pos_le_divide_eq pos_divide_le_eq)
qed

lemma unavailable_run:
  "\<not> is_available self \<Longrightarrow> print_fault E not_available_line = None \<Longrightarrow>
   create_sample_data E self w =
     (Inr False, w\<lparr>stdout := stdout w @ [not_available_line]\<rparr>)"
  by (simp add: create_sample_data_def bind_def return_def print_line_def)

text \<open>On an unavailable object nothing but the console is touched, whatever the console does.\<close>

lemma unavailable_untouched:
  "\<not> is_available self \<Longrightarrow>
   fst (create_sample_data E self w) \<noteq> Inr True \<and>
   store (snd (create_sample_data E self w)) = store w \<and>
   io_calls (snd (create_sample_data E self w)) = io_calls w \<and>
   docs_read (snd (create_sample_data E self w)) = docs_read w"
  by (simp add: create_sample_data_def bind_def return_def print_line_def split: option.split)

lemma create_sample_data_returns:
  "console_ok E \<Longrightarrow> \<exists>b. fst (create_sample_data E self w) = Inr b"
  by (auto simp: create_sample_data_def try_except_def bind_def return_def print_line_def
        console_okD split: prod.splits sum.splits)

lemma create_sample_data_catches:
  "console_ok E \<Longrightarrow> is_available self \<Longrightarrow> fst (create_sample_data_body E w) = Inl e \<Longrightarrow>
   fst (create_sample_data E self w) = Inr False"
  by (auto simp: create_sample_data_def try_except_def bind_def return_def print_line_def
        console_okD split: prod.splits sum.splits)

text \<open>A body that raised never yields True: the handler returns False or raises itself.\<close>

lemma raised_is_not_success:
  "fst (create_sample_data_body E w) = Inl e \<Longrightarrow> fst (create_sample_data E self w) \<noteq> Inr True"
  by (auto simp: create_sample_data_def try_except_def bind_def return_def print_line_def
        split: prod.splits sum.splits option.splits)

lemma probe_fails:
  "is_available self \<Longrightarrow> firestore_fault E (io_calls w) = Some e \<Longrightarrow>
   print_fault E (error_line e) = None \<Longrightarrow>
   create_sample_data E self w =
     (Inr False, w\<lparr>io_calls := Suc (io_calls w), stdout := stdout w @ [error_line e]\<rparr>)"
  by (simp add: create_sample_data_def create_sample_data_body_def prog_defs world_defs)

lemma probe_finds_data:
  "is_available self \<Longrightarrow> firestore_fault E (io_calls w) = None \<Longrightarrow>
   store w ''sensor_data'' \<noteq> [] \<Longrightarrow> print_fault E already_exists_line = None \<Longrightarrow>
   create_sample_data E self w =
     (Inr True, w\<lparr>io_calls := Suc (io_calls w), docs_read := Suc (docs_read w),
                  stdout := stdout w @ [already_exists_line]\<rparr>)"
  by (cases "store w ''sensor_data''")
     (simp_all add: create_sample_data_def create_sample_data_body_def prog_defs world_defs)

text \<open>What a probe that found a document leaves behind, whatever the console does.\<close>

lemma probe_finds_data_effects:
  "is_available self \<Longrightarrow> firestore_fault E (io_calls w) = None \<Longrightarrow>
   store w ''sensor_data'' \<noteq> [] \<Longrightarrow>
   store (snd (create_sample_data E self w)) = store w \<and>
   io_calls (snd (create_sample_data E self w)) = Suc (io_calls w) \<and>
   docs_read (snd (create_sample_data E self w)) = Suc (docs_read w)"
  by (cases "store w ''sensor_data''")
     (simp_all add: create_sample_data_def create_sample_data_body_def prog_defs world_defs
        split: option.split)

text \<open>After a probe that found nothing, the rest of the body runs on the world \<open>w1\<close>.\<close>

lemma after_empty_probe:
  "is_available self \<Longrightarrow> firestore_fault E (io_calls w) = None \<Longrightarrow>
   store w ''sensor_data'' = [] \<Longrightarrow> print_fault E creating_line = None \<Longrightarrow>
   create_sample_data E self w =
     try_except
       (bind (create_sensor_data E) (\<lambda>_.
        bind (create_alerts E) (\<lambda>_.
        bind (create_settings E) (\<lambda>_.
        bind (print_line E created_line) (\<lambda>_.
        return True)))))
       (\<lambda>e. bind (print_line E (error_line e)) (\<lambda>_.
             return False))
       (w\<lparr>io_calls := Suc (io_calls w), stdout := stdout w @ [creating_line]\<rparr>)"
  by (simp add: create_sample_data_def create_sample_data_body_def prog_defs world_defs)

lemma no_writes_on_existing_data:
  "store w ''sensor_data'' \<noteq> [] \<Longrightarrow> store (snd (create_sample_data E self w)) = store w"
proof (cases "is_available self")
  case False
  then show ?thesis by (simp add: unavailable_untouched)
next
  case True
  assume data: "store w ''sensor_data'' \<noteq> []"
  show ?thesis
  proof (cases "firestore_fault E (io_calls w)")
    case None
    with True data show ?thesis by (simp add: probe_finds_data_effects)
  next
    case (Some e)
    with True show ?thesis
      by (simp add: create_sample_data_def create_sample_data_body_def prog_defs world_defs
            split: option.split)
  qed
qed

lemma faults_shift:
  assumes "\<forall>i<n. firestore_fault E (a + i) = None" and "m + k \<le> n"
  shows "\<forall>i<k. firestore_fault E (a + m + i) = None"
proof (intro allI impI)
  fix i
  assume "i < k"
  then have "m + i < n" using assms(2) by simp
  then have "firestore_fault E (a + (m + i)) = None" using assms(1) by blast
  then show "firestore_fault E (a + m + i) = None" by (simp add: add.assoc)
qed

lemma fails_in_loop:
  assumes av: "is_available self" and empty: "store w ''sensor_data'' = []"
    and j: "1 \<le> j" "j \<le> 24"
    and ok: "\<forall>i<j. firestore_fault E (io_calls w + i) = None"
    and bad: "firestore_fault E (io_calls w + j) = Some e"
    and announced: "print_fault E creating_line = None"
  shows "fst (create_sample_data E self w) \<noteq> Inr True \<and>
         (print_fault E (error_line e) = None \<longrightarrow>
            fst (create_sample_data E self w) = Inr False) \<and>
         (\<forall>x. print_fault E (error_line e) = Some x \<longrightarrow>
            fst (create_sample_data E self w) = Inl x) \<and>
         store (snd (create_sample_data E self w)) =
           (store w)(''sensor_data'' :=
              map (reading E (clock_reads w) (random_draws w) 0) [0..<j - 1])"
proof -
  let ?w1 = "w\<lparr>io_calls := Suc (io_calls w), stdout := stdout w @ [creating_line]\<rparr>"
  have f0: "firestore_fault E (io_calls w) = None" using ok j by force
  have k: "j - 1 < 24" using j by simp
  have ok1: "\<forall>i<j - 1. firestore_fault E (io_calls ?w1 + i) = None"
    using faults_shift [OF ok, of 1 "j - 1"] j by simp
  have bad1: "firestore_fault E (io_calls ?w1 + (j - 1)) = Some e"
    using bad j by simp
  have loop: "fst (create_sensor_data E ?w1) = Inl e \<and>
      store (snd (create_sensor_data E ?w1)) =
        (store w)(''sensor_data'' :=
           map (reading E (clock_reads w) (random_draws w) 0) [0..<j - 1])"
    using loop_fail [OF k ok1 bad1, of 0] empty
    by (simp add: create_sensor_data_def)
  show ?thesis
    using loop
    by (auto simp: after_empty_probe [OF av f0 empty announced] try_except_def bind_def
          return_def print_line_def split: prod.splits sum.splits option.splits)
qed

lemma sensor_data_ok:
  assumes ok: "\<forall>i<24. firestore_fault E (io_calls w + i) = None"
  shows "create_sensor_data E w =
     (Inr (),
      w\<lparr>clock_reads := clock_reads w + 24, random_draws := random_draws w + 72,
        io_calls := io_calls w + 24,
        store := (store w)(''sensor_data'' := store w ''sensor_data'' @
                   map (reading E (clock_reads w) (random_draws w) 0) [0..<24])\<rparr>)"
  using loop_ok [OF ok, of 0] by (simp add: create_sensor_data_def)

lemma fresh_sensor_data:
  assumes av: "is_available self" and empty: "store w ''sensor_data'' = []"
    and ok: "\<forall>i<25. firestore_fault E (io_calls w + i) = None"
    and announced: "print_fault E creating_line = None"
  shows "store (snd (create_sample_data E self w)) ''sensor_data'' =
           map (reading E (clock_reads w) (random_draws w) 0) [0..<24]"
proof -
  let ?w1 = "w\<lparr>io_calls := Suc (io_calls w), stdout := stdout w @ [creating_line]\<rparr>"
  have f0: "firestore_fault E (io_calls w) = None" using ok by force
  have ok1: "\<forall>i<24. firestore_fault E (io_calls ?w1 + i) = None"
    using faults_shift [OF ok, of 1 24] by simp
  show ?thesis
    using empty
    by (auto simp: after_empty_probe [OF av f0 empty announced] sensor_data_ok [OF ok1]
          try_except_def bind_def return_def print_line_def
          dest!: keep_after_alerts keep_after_settings
          split: prod.splits sum.splits option.splits)
qed

lemma fails_in_alerts:
  assumes av: "is_available self" and empty: "store w ''sensor_data'' = []"
    and j: "25 \<le> j" "j \<le> 27"
    and ok: "\<forall>i<j. firestore_fault E (io_calls w + i) = None"
    and bad: "firestore_fault E (io_calls w + j) = Some e"
    and announced: "print_fault E creating_line = None"
  shows "(print_fault E (error_line e) = None \<longrightarrow>
            fst (create_sample_data E self w) = Inr False) \<and>
         store (snd (create_sample_data E self w)) =
           (store w)(''sensor_data'' :=
              map (reading E (clock_reads w) (random_draws w) 0) [0..<24],
            ''alerts'' := store w ''alerts'' @ take (j - 25) (alerts_of E (clock_reads w)))"
proof -
  let ?w1 = "w\<lparr>io_calls := Suc (io_calls w), stdout := stdout w @ [creating_line]\<rparr>"
  let ?w2 = "?w1\<lparr>clock_reads := clock_reads ?w1 + 24, random_draws := random_draws ?w1 + 72,
        io_calls := io_calls ?w1 + 24,
        store := (store ?w1)(''sensor_data'' := store ?w1 ''sensor_data'' @
                   map (reading E (clock_reads ?w1) (random_draws ?w1) 0) [0..<24])\<rparr>"
  let ?w3 = "?w2\<lparr>clock_reads := clock_reads ?w2 + 3, io_calls := io_calls ?w2 + Suc (j - 25),
        store := (store ?w2)(''alerts'' := store ?w2 ''alerts'' @
                   take (j - 25)
                     (sample_alerts (now E (clock_reads ?w2)) (now E (clock_reads ?w2 + 1))
                        (now E (clock_reads ?w2 + 2))))\<rparr>"
  have f0: "firestore_fault E (io_calls w) = None" using ok j by force
  have ok1: "\<forall>i<24. firestore_fault E (io_calls ?w1 + i) = None"
    using faults_shift [OF ok, of 1 24] j by simp
  have k: "j - 25 < 3" using j by simp
  have ok2: "\<forall>i<j - 25. firestore_fault E (io_calls ?w2 + i) = None"
    using faults_shift [OF ok, of 25 "j - 25"] j by (simp add: add.commute)
  have bad2: "firestore_fault E (io_calls ?w2 + (j - 25)) = Some e"
    using bad j by simp
  have run: "(print_fault E (error_line e) = None \<longrightarrow>
               fst (create_sample_data E self w) = Inr False) \<and>
             store (snd (create_sample_data E self w)) = store ?w3"
    apply (simp only: after_empty_probe [OF av f0 empty announced])
    apply (simp only: try_except_def bind_def sensor_data_ok [OF ok1]
             alerts_fail [OF k ok2 bad2] prod.case sum.case)
    apply (simp add: return_def print_line_def split: option.split)
    done
  show ?thesis
    using empty by (auto simp: run alerts_of_def fun_eq_iff add.commute)
qed

lemma fails_in_settings:
  assumes av: "is_available self" and empty: "store w ''sensor_data'' = []"
    and ok: "\<forall>i<28. firestore_fault E (io_calls w + i) = None"
    and bad: "firestore_fault E (io_calls w + 28) = Some e"
    and announced: "print_fault E creating_line = None"
  shows "(print_fault E (error_line e) = None \<longrightarrow>
            fst (create_sample_data E self w) = Inr False) \<and>
         store (snd (create_sample_data E self w)) =
           (store w)(''sensor_data'' :=
              map (reading E (clock_reads w) (random_draws w) 0) [0..<24],
            ''alerts'' := store w ''alerts'' @ alerts_of E (clock_reads w))"
proof -
  let ?w1 = "w\<lparr>io_calls := Suc (io_calls w), stdout := stdout w @ [creating_line]\<rparr>"
  let ?w2 = "?w1\<lparr>clock_reads := clock_reads ?w1 + 24, random_draws := random_draws ?w1 + 72,
        io_calls := io_calls ?w1 + 24,
        store := (store ?w1)(''sensor_data'' := store ?w1 ''sensor_data'' @
                   map (reading E (clock_reads ?w1) (random_draws ?w1) 0) [0..<24])\<rparr>"
  let ?w3 = "?w2\<lparr>clock_reads := clock_reads ?w2 + 3, io_calls := io_calls ?w2 + 3,
        store := (store ?w2)(''alerts'' := store ?w2 ''alerts'' @
                   sample_alerts (now E (clock_reads ?w2)) (now E (clock_reads ?w2 + 1))
                     (now E (clock_reads ?w2 + 2)))\<rparr>"
  have f0: "firestore_fault E (io_calls w) = None" using ok by force
  have ok1: "\<forall>i<24. firestore_fault E (io_calls ?w1 + i) = None"
    using faults_shift [OF ok, of 1 24] by simp
  have ok2: "\<forall>i<3. firestore_fault E (io_calls ?w2 + i) = None"
    using faults_shift [OF ok, of 25 3] by (simp add: add.commute)
  have bad3: "firestore_fault E (io_calls ?w3) = Some e"
    using bad by (simp add: add.commute)
  have s3: "fst (create_settings E ?w3) = Inl e \<and>
            store (snd (create_settings E ?w3)) = store ?w3"
    using bad3 by (simp add: create_settings_def datetime_now_def collection_add_def bind_def)
  have run: "(print_fault E (error_line e) = None \<longrightarrow>
               fst (create_sample_data E self w) = Inr False) \<and>
             store (snd (create_sample_data E self w)) = store ?w3"
    using s3
    apply (simp only: after_empty_probe [OF av f0 empty announced])
    apply (simp only: try_except_def bind_def sensor_data_ok [OF ok1] alerts_ok [OF ok2]
             prod.case sum.case)
    apply (auto simp: return_def print_line_def split: prod.splits sum.splits option.splits)
    done
  show ?thesis
    using empty by (auto simp: run alerts_of_def fun_eq_iff add.commute)
qed

lemma success_leaves_data:
  assumes "fst (create_sample_data E self w) = Inr True"
  shows "store (snd (create_sample_data E self w)) ''sensor_data'' \<noteq> []"
proof -
  have av: "is_available self"
    using assms unavailable_untouched [of self E w] by blast
  have body: "fst (create_sample_data_body E w) \<noteq> Inl e" for e
    using assms raised_is_not_success [of E w e self] by blast
  have f0: "firestore_fault E (io_calls w) = None"
  proof (cases "firestore_fault E (io_calls w)")
    case (Some e)
    then have "fst (create_sample_data_body E w) = Inl e"
      by (simp add: create_sample_data_body_def prog_defs world_defs)
    with body show ?thesis by blast
  qed simp
  show ?thesis
  proof (cases "store w ''sensor_data'' = []")
    case False
    then show ?thesis by (simp add: no_writes_on_existing_data)
  next
    case empty: True
    have announced: "print_fault E creating_line = None"
    proof (cases "print_fault E creating_line")
      case (Some e)
      then have "fst (create_sample_data_body E w) = Inl e"
        using f0 empty by (simp add: create_sample_data_body_def prog_defs world_defs)
      with body show ?thesis by blast
    qed simp
    show ?thesis
    proof (cases "\<forall>i<25. firestore_fault E (io_calls w + i) = None")
      case True
      then show ?thesis by (simp add: fresh_sensor_data [OF av empty True announced])
    next
      case False
      then obtain i where i: "i < 25" "firestore_fault E (io_calls w + i) \<noteq> None" by blast
      define j where "j = (LEAST i. firestore_fault E (io_calls w + i) \<noteq> None)"
      have bad: "firestore_fault E (io_calls w + j) \<noteq> None"
        unfolding j_def using i(2) by (rule LeastI)
      have least: "\<forall>i<j. firestore_fault E (io_calls w + i) = None"
        unfolding j_def using not_less_Least by blast
      have "j \<le> i" unfolding j_def using i(2) by (rule Least_le)
      then have j24: "j \<le> 24" using i(1) by simp
      have j1: "1 \<le> j" using bad f0 by (cases j) simp_all
      from bad obtain e where "firestore_fault E (io_calls w + j) = Some e" by blast
      from fails_in_loop [OF av empty j1 j24 least this announced] assms show ?thesis by simp
    qed
  qed
qed

lemma fresh_success:
  assumes av: "is_available self" and empty: "store w ''sensor_data'' = []"
    and ok: "\<forall>i<29. firestore_fault E (io_calls w + i) = None"
    and console: "console_ok E"
  shows "fst (create_sample_data E self w) = Inr True"
proof -
  let ?w1 = "w\<lparr>io_calls := Suc (io_calls w), stdout := stdout w @ [creating_line]\<rparr>"
  let ?w2 = "?w1\<lparr>clock_reads := clock_reads ?w1 + 24, random_draws := random_draws ?w1 + 72,
        io_calls := io_calls ?w1 + 24,
        store := (store ?w1)(''sensor_data'' := store ?w1 ''sensor_data'' @
                   map (reading E (clock_reads ?w1) (random_draws ?w1) 0) [0..<24])\<rparr>"
  let ?w3 = "?w2\<lparr>clock_reads := clock_reads ?w2 + 3, io_calls := io_calls ?w2 + 3,
        store := (store ?w2)(''alerts'' := store ?w2 ''alerts'' @
                   sample_alerts (now E (clock_reads ?w2)) (now E (clock_reads ?w2 + 1))
                     (now E (clock_reads ?w2 + 2)))\<rparr>"
  have f0: "firestore_fault E (io_calls w) = None" using ok by force
  have ok1: "\<forall>i<24. firestore_fault E (io_calls ?w1 + i) = None"
    using faults_shift [OF ok, of 1 24] by simp
  have ok2: "\<forall>i<3. firestore_fault E (io_calls ?w2 + i) = None"
    using faults_shift [OF ok, of 25 3] by (simp add: add.commute)
  have "firestore_fault E (io_calls w + 28) = None"
    using ok by force
  then have ok3: "firestore_fault E (io_calls ?w3) = None"
    by (simp add: add.commute)
  have s3: "fst (create_settings E ?w3) = Inr ()"
    using ok3 by (simp add: create_settings_def datetime_now_def collection_add_def bind_def)
  show ?thesis
    using s3
    apply (simp only: after_empty_probe [OF av f0 empty console_okD [OF console]])
    apply (simp only: try_except_def bind_def sensor_data_ok [OF ok1] alerts_ok [OF ok2]
             prod.case sum.case)
    apply (auto simp: return_def print_line_def console_okD [OF console]
             split: prod.splits sum.splits)
    done
qed

lemma reading_fields:
  "map fst (reading E c r m k) =
     [''timestamp'', ''temperature'', ''dissolved_oxygen'', ''ammonia'', ''location'',
      ''sensor_id''] \<and>
   map_of (reading E c r m k) ''timestamp'' =
     Some (VDatetime (now E (c + k) - int (m + k) * hour)) \<and>
   map_of (reading E c r m k) ''temperature'' =
     Some (VFloat (py_round (20 + 10 * random E (r + 3 * k)) 1)) \<and>
   map_of (reading E c r m k) ''dissolved_oxygen'' =
     Some (VFloat (py_round (4 + 8 * random E (r + 3 * k + 1)) 2)) \<and>
   map_of (reading E c r m k) ''ammonia'' =
     Some (VFloat (py_round (5 * random E (r + 3 * k + 2)) 3)) \<and>
   map_of (reading E c r m k) ''location'' = Some (VStr ''Tank A'') \<and>
   map_of (reading E c r m k) ''sensor_id'' = Some (VStr ''SENSOR_001'') \<and>
   timestamp_of (reading E c r m k) = now E (c + k) - int (m + k) * hour"
  by (simp add: reading_def sample_data_def timedelta_def hour_def)

lemma uniform_bounds:
  assumes "0 \<le> u" and "u < (1::rat)" and "0 \<le> d"
  shows "of_int a \<le> of_int a + d * u \<and> of_int a + d * u \<le> of_int a + d"
proof -
  have "0 \<le> d * u" using assms by simp
  moreover have "d * u \<le> d * 1" using assms by (intro mult_left_mono) simp_all
  ultimately show ?thesis by simp
qed

lemma temperature_range:
  assumes "0 \<le> u" and "u < (1::rat)"
  shows "20 \<le> py_round (20 + 10 * u) 1 \<and> py_round (20 + 10 * u) 1 \<le> 30"
  using py_round_bounds [of 20 "20 + 10 * u" 30 1] uniform_bounds [OF assms, of 10 20]
  by simp

lemma oxygen_range:
  assumes "0 \<le> u" and "u < (1::rat)"
  shows "4 \<le> py_round (4 + 8 * u) 2 \<and> py_round (4 + 8 * u) 2 \<le> 12"
  using py_round_bounds [of 4 "4 + 8 * u" 12 2] uniform_bounds [OF assms, of 8 4]
  by simp

lemma ammonia_range:
  assumes "0 \<le> u" and "u < (1::rat)"
  shows "0 \<le> py_round (5 * u) 3 \<and> py_round (5 * u) 3 \<le> 5"
  using py_round_bounds [of 0 "5 * u" 5 3] uniform_bounds [OF assms, of 5 0]
  by simp

lemma py_round_grid: "\<exists>z::int. py_round x n = of_int z / 10 ^ n"
  by (auto simp: py_round_def)

section \<open>Claims about initialize_firebase and the accessors\<close>

text \<open>
  C1. \<open>initialize_firebase\<close> tries the credential strategies in a fixed order, and the
  trace of the call shows it. (1) When \<open>firebase_admin._apps\<close> is not empty the call goes to
  \<open>get_app\<close> and touches no credential source at all. (2) Otherwise, when the file
  \<open>firebase-service-account.json\<close> beside the module exists, the certificate is built from
  that path; no environment variable is read and no event of another strategy occurs, so
  with both the file and \<open>FIREBASE_SERVICE_ACCOUNT_KEY\<close> present the file wins.
  (3) Otherwise, when \<open>FIREBASE_SERVICE_ACCOUNT_KEY\<close> is set (to a non-empty text, which is
  what the \<open>if\<close> tests), that text goes to \<open>json.loads\<close> and
  \<open>GOOGLE_APPLICATION_CREDENTIALS\<close> is never read. (4) Otherwise, when
  \<open>GOOGLE_APPLICATION_CREDENTIALS\<close> is set, the default credentials are asked for.
  (5) Otherwise the call prints the line that reports the missing configuration, leaves
  the object as it was, has asked the SDK for nothing, and returns False once the console
  has taken the lines; it never returns True.
\<close>

theorem credential_priority_order:
  "(apps_nonempty E \<longrightarrow>
      take 2 (interactions E self) = [Apps_checked, Get_app] \<and>
      \<not> list_ex tries_credentials (interactions E self)) \<and>
   (\<not> apps_nonempty E \<and> path_exists E (service_account_path E) \<longrightarrow>
      take 3 (interactions E self) =
        [Apps_checked, Path_exists (service_account_path E),
         Certificate_of_path (service_account_path E)] \<and>
      \<not> list_ex reads_environment (interactions E self) \<and>
      \<not> list_ex (beside_local_file (service_account_path E)) (interactions E self)) \<and>
   (\<not> apps_nonempty E \<and> \<not> path_exists E (service_account_path E) \<and>
    environ E FIREBASE_SERVICE_ACCOUNT_KEY = Some t \<and> t \<noteq> [] \<longrightarrow>
      take 5 (interactions E self) =
        [Apps_checked, Path_exists (service_account_path E),
         Getenv FIREBASE_SERVICE_ACCOUNT_KEY, Getenv FIREBASE_SERVICE_ACCOUNT_KEY,
         Json_loads t] \<and>
      Getenv GOOGLE_APPLICATION_CREDENTIALS \<notin> set (interactions E self) \<and>
      Application_default \<notin> set (interactions E self)) \<and>
   (\<not> apps_nonempty E \<and> \<not> path_exists E (service_account_path E) \<and>
    \<not> truthy (environ E FIREBASE_SERVICE_ACCOUNT_KEY) \<and>
    truthy (environ E GOOGLE_APPLICATION_CREDENTIALS) \<longrightarrow>
      take 5 (interactions E self) =
        [Apps_checked, Path_exists (service_account_path E),
         Getenv FIREBASE_SERVICE_ACCOUNT_KEY, Getenv GOOGLE_APPLICATION_CREDENTIALS,
         Application_default]) \<and>
   (\<not> apps_nonempty E \<and> \<not> path_exists E (service_account_path E) \<and>
    \<not> truthy (environ E FIREBASE_SERVICE_ACCOUNT_KEY) \<and>
    \<not> truthy (environ E GOOGLE_APPLICATION_CREDENTIALS) \<longrightarrow>
      fst (initialize_firebase E (self, [])) \<noteq> Inr True \<and>
      (console_ok E \<longrightarrow> fst (initialize_firebase E (self, [])) = Inr False) \<and>
      fst (snd (initialize_firebase E (self, []))) = self \<and>
      \<not> list_ex (\<lambda>ev. ev \<in> {Get_app, Firestore_client, Application_default})
           (interactions E self) \<and>
      take 5 (interactions E self) =
        [Apps_checked, Path_exists (service_account_path E),
         Getenv FIREBASE_SERVICE_ACCOUNT_KEY, Getenv GOOGLE_APPLICATION_CREDENTIALS,
         Print not_configured_line])"
proof (intro conjI impI)
  assume "apps_nonempty E"
  then show "take 2 (interactions E self) = [Apps_checked, Get_app]"
    and "\<not> list_ex tries_credentials (interactions E self)"
    using reuse_case by blast+
next
  assume h: "\<not> apps_nonempty E \<and> path_exists E (service_account_path E)"
  then show "take 3 (interactions E self) =
        [Apps_checked, Path_exists (service_account_path E),
         Certificate_of_path (service_account_path E)]"
    and "\<not> list_ex reads_environment (interactions E self)"
    and "\<not> list_ex (beside_local_file (service_account_path E)) (interactions E self)"
    using file_case by blast+
next
  assume h: "\<not> apps_nonempty E \<and> \<not> path_exists E (service_account_path E) \<and>
    environ E FIREBASE_SERVICE_ACCOUNT_KEY = Some t \<and> t \<noteq> []"
  then show "take 5 (interactions E self) =
        [Apps_checked, Path_exists (service_account_path E),
         Getenv FIREBASE_SERVICE_ACCOUNT_KEY, Getenv FIREBASE_SERVICE_ACCOUNT_KEY,
         Json_loads t]"
    and "Getenv GOOGLE_APPLICATION_CREDENTIALS \<notin> set (interactions E self)"
    and "Application_default \<notin> set (interactions E self)"
    using key_case [of E t self] by blast+
next
  assume h: "\<not> apps_nonempty E \<and> \<not> path_exists E (service_account_path E) \<and>
    \<not> truthy (environ E FIREBASE_SERVICE_ACCOUNT_KEY) \<and>
    truthy (environ E GOOGLE_APPLICATION_CREDENTIALS)"
  then show "take 5 (interactions E self) =
        [Apps_checked, Path_exists (service_account_path E),
         Getenv FIREBASE_SERVICE_ACCOUNT_KEY, Getenv GOOGLE_APPLICATION_CREDENTIALS,
         Application_default]"
    using default_case by blast
next
  assume h: "\<not> apps_nonempty E \<and> \<not> path_exists E (service_account_path E) \<and>
    \<not> truthy (environ E FIREBASE_SERVICE_ACCOUNT_KEY) \<and>
    \<not> truthy (environ E GOOGLE_APPLICATION_CREDENTIALS)"
  note quiet = unconfigured_untouched [of E self "[]"]
  show "fst (initialize_firebase E (self, [])) = Inr False" if "console_ok E"
    using that h unconfigured_case [of E self "[]"] by simp
  show "fst (initialize_firebase E (self, [])) \<noteq> Inr True"
    and "fst (snd (initialize_firebase E (self, []))) = self"
    and "\<not> list_ex (\<lambda>ev. ev \<in> {Get_app, Firestore_client, Application_default})
           (interactions E self)"
    using h quiet by blast+
  show "take 5 (interactions E self) =
        [Apps_checked, Path_exists (service_account_path E),
         Getenv FIREBASE_SERVICE_ACCOUNT_KEY, Getenv GOOGLE_APPLICATION_CREDENTIALS,
         Print not_configured_line]"
    using h quiet by blast
qed

theorem credential_priority_order_witness:
  "(take 2 (interactions reuse_env blank) = [Apps_checked, Get_app] \<and>
    \<not> list_ex tries_credentials (interactions reuse_env blank)) \<and>
   (path_exists file_and_key_env (service_account_path file_and_key_env) \<and>
    environ file_and_key_env FIREBASE_SERVICE_ACCOUNT_KEY = Some ''{}'' \<and>
    take 3 (interactions file_and_key_env blank) =
      [Apps_checked, Path_exists ''/srv/app/firebase-service-account.json'',
       Certificate_of_path ''/srv/app/firebase-service-account.json''] \<and>
    \<not> list_ex reads_environment (interactions file_and_key_env blank) \<and>
    \<not> list_ex (beside_local_file ''/srv/app/firebase-service-account.json'')
         (interactions file_and_key_env blank)) \<and>
   (take 5 (interactions key_env blank) =
      [Apps_checked, Path_exists ''/srv/app/firebase-service-account.json'',
       Getenv ''FIREBASE_SERVICE_ACCOUNT_KEY'', Getenv ''FIREBASE_SERVICE_ACCOUNT_KEY'',
       Json_loads ''{}''] \<and>
    environ key_env GOOGLE_APPLICATION_CREDENTIALS = Some ''/etc/adc.json'' \<and>
    Getenv ''GOOGLE_APPLICATION_CREDENTIALS'' \<notin> set (interactions key_env blank)) \<and>
   take 5 (interactions adc_env blank) =
      [Apps_checked, Path_exists ''/srv/app/firebase-service-account.json'',
       Getenv ''FIREBASE_SERVICE_ACCOUNT_KEY'', Getenv ''GOOGLE_APPLICATION_CREDENTIALS'',
       Application_default] \<and>
   fst (initialize_firebase demo_env (blank, [])) = Inr False"
  using credential_priority_order [of reuse_env blank "''{}''"]
    credential_priority_order [of file_and_key_env blank "''{}''"]
    credential_priority_order [of key_env blank "''{}''"]
    credential_priority_order [of adc_env blank "''{}''"]
    credential_priority_order [of demo_env blank "''{}''"]
  by (simp add: sample_defs console_ok_def)

text \<open>
  C5. \<open>get_firestore_client\<close> returns a client exactly when \<open>is_available\<close> holds, and
  \<open>None\<close> exactly when it does not; it calls no collaborator, so it cannot raise.
\<close>

theorem get_firestore_client_iff_available:
  "(\<exists>c. get_firestore_client self = Some c) = is_available self \<and>
   (get_firestore_client self = None) = (\<not> is_available self)"
  by (auto simp: get_firestore_client_def is_available_def)

text \<open>
  C2, as amended. As long as the console takes the lines the module prints, neither entry
  point raises to its caller: \<open>initialize_firebase\<close> and \<open>create_sample_data\<close> return a
  boolean, and when the body of the \<open>try\<close> block raises (a missing file, malformed JSON in
  \<open>FIREBASE_SERVICE_ACCOUNT_KEY\<close>, an SDK or network exception, a failed write) the value
  returned is False.
\<close>

theorem entry_points_never_raise:
  assumes "console_ok E"
  shows "(\<exists>b. fst (initialize_firebase E s) = Inr b) \<and>
   (\<exists>b. fst (create_sample_data E self w) = Inr b) \<and>
   (fst (initialize_firebase_body E s) = Inl e \<longrightarrow>
      fst (initialize_firebase E s) = Inr False) \<and>
   (is_available self \<and> fst (create_sample_data_body E w) = Inl e \<longrightarrow>
      fst (create_sample_data E self w) = Inr False)"
  using initialize_returns [OF assms, of s] create_sample_data_returns [OF assms, of self w]
    initialize_catches [OF assms, of s e] create_sample_data_catches [OF assms, of self w e]
  by blast

theorem entry_points_never_raise_witness:
  "console_ok malformed_env \<and>
   fst (initialize_firebase_body malformed_env (blank, [])) = Inl (Exception ''JSONDecodeError'') \<and>
   fst (initialize_firebase malformed_env (blank, [])) = Inr False \<and>
   is_available connected \<and>
   fst (create_sample_data_body
          (demo_env\<lparr>firestore_fault := (\<lambda>k. Some (Exception ''503 Deadline Exceeded''))\<rparr>)
          empty_world) = Inl (Exception ''503 Deadline Exceeded'') \<and>
   fst (create_sample_data
          (demo_env\<lparr>firestore_fault := (\<lambda>k. Some (Exception ''503 Deadline Exceeded''))\<rparr>)
          connected empty_world) = Inr False"
proof -
  let ?down = "demo_env\<lparr>firestore_fault := (\<lambda>k. Some (Exception ''503 Deadline Exceeded''))\<rparr>"
  have ok1: "console_ok malformed_env" and ok2: "console_ok ?down"
    by (simp_all add: console_ok_def malformed_env_def demo_env_def)
  have a: "fst (initialize_firebase_body malformed_env (blank, [])) =
             Inl (Exception ''JSONDecodeError'')"
    by (simp add: prog_defs init_defs sample_defs)
  have b: "is_available connected"
    by (simp add: is_available_def connected_def)
  have c: "fst (create_sample_data_body ?down empty_world) =
             Inl (Exception ''503 Deadline Exceeded'')"
    by (simp add: create_sample_data_body_def prog_defs world_defs demo_env_def empty_world_def)
  show ?thesis
    using ok1 a b c
      entry_points_never_raise [OF ok1, where s = "(blank, [])"
        and e = "Exception ''JSONDecodeError''"]
      entry_points_never_raise [OF ok2, where self = connected and w = empty_world
        and e = "Exception ''503 Deadline Exceeded''"]
    by simp
qed

text \<open>
  The claim as it was written fails on a console that cannot encode the emoji of the
  status lines (\<open>print\<close> raises \<open>UnicodeEncodeError\<close>). With malformed JSON in
  \<open>FIREBASE_SERVICE_ACCOUNT_KEY\<close> the handler catches the parse error and its own line
  (line 66) raises, past \<open>initialize_firebase\<close>; with a failing probe the handler of
  \<open>create_sample_data\<close> (line 181) raises in the same way.
\<close>

theorem entry_points_never_raise_counterexample:
  "fst (initialize_firebase ascii_malformed_env (blank, [])) =
     Inl (Exception ''UnicodeEncodeError'') \<and>
   fst (create_sample_data ascii_down_env connected empty_world) =
     Inl (Exception ''UnicodeEncodeError'')"
  by (simp add: prog_defs init_defs sample_defs line_defs create_sample_data_def
        create_sample_data_body_def world_defs is_available_def empty_world_def)

text \<open>
  C6, as amended. With no app registered, no credential file beside the module and neither
  environment variable set, a call on an object that is not available before it leaves the
  object unchanged, so \<open>is_available\<close> is false afterwards; and it returns False once the
  console has taken the lines that report it.
\<close>

theorem unconfigured_returns_false:
  assumes "\<not> apps_nonempty E"
    and "\<not> path_exists E (service_account_path E)"
    and "environ E FIREBASE_SERVICE_ACCOUNT_KEY = None"
    and "environ E GOOGLE_APPLICATION_CREDENTIALS = None"
    and "\<not> is_available self"
  shows "(console_ok E \<longrightarrow> fst (initialize_firebase E (self, tr)) = Inr False) \<and>
         fst (snd (initialize_firebase E (self, tr))) = self \<and>
         \<not> is_available (fst (snd (initialize_firebase E (self, tr))))"
  using assms unconfigured_case [of E self tr] unconfigured_untouched [of E self tr] by simp

theorem unconfigured_returns_false_witness:
  "\<not> apps_nonempty demo_env \<and>
   environ demo_env FIREBASE_SERVICE_ACCOUNT_KEY = None \<and>
   environ demo_env GOOGLE_APPLICATION_CREDENTIALS = None \<and>
   console_ok demo_env \<and>
   fst (initialize_firebase demo_env (blank, [])) = Inr False \<and>
   \<not> is_available (fst (snd (initialize_firebase demo_env (blank, []))))"
proof -
  have h: "\<not> apps_nonempty demo_env"
    "\<not> path_exists demo_env (service_account_path demo_env)"
    "environ demo_env FIREBASE_SERVICE_ACCOUNT_KEY = None"
    "environ demo_env GOOGLE_APPLICATION_CREDENTIALS = None"
    "\<not> is_available blank"
    by (simp_all add: demo_env_def blank_def is_available_def)
  have ok: "console_ok demo_env"
    by (simp add: console_ok_def demo_env_def)
  from unconfigured_returns_false [OF h, of "[]"] h ok show ?thesis by simp
qed

text \<open>
  The claim as it was written says nothing of the object itself. On an object that an
  earlier call made available, with the app since deleted and nothing configured, every
  condition of the claim holds, the call returns False, and \<open>is_available\<close> is true
  afterwards. And on a fresh object, on a console that cannot encode the warning, the
  call does not return False: it raises.
\<close>

theorem unconfigured_returns_false_counterexample:
  "\<not> apps_nonempty demo_env \<and>
   \<not> path_exists demo_env (service_account_path demo_env) \<and>
   environ demo_env FIREBASE_SERVICE_ACCOUNT_KEY = None \<and>
   environ demo_env GOOGLE_APPLICATION_CREDENTIALS = None \<and>
   fst (initialize_firebase demo_env (connected, [])) = Inr False \<and>
   is_available (fst (snd (initialize_firebase demo_env (connected, [])))) \<and>
   fst (initialize_firebase ascii_env (blank, [])) = Inl (Exception ''UnicodeEncodeError'')"
  by (simp add: prog_defs init_defs sample_defs line_defs is_available_def)

text \<open>
  C9, as amended. Constructing the object runs \<open>initialize_firebase\<close> once on the three
  fresh fields: the registry of apps is looked at exactly once, and what the constructor
  asks of its collaborators is what that one call asks. As long as the console takes the
  lines the call prints, the constructor does not raise and yields the object the call
  left, whatever boolean the call returned; so the module-level \<open>firebase_config\<close> is
  constructed even when no credentials exist.
\<close>

theorem construction_never_raises:
  "(console_ok E \<longrightarrow>
      fst (firebase_config E) = Inr (fst (snd (initialize_firebase E (blank, []))))) \<and>
   snd (firebase_config E) = interactions E blank \<and>
   length (filter (\<lambda>ev. ev = Apps_checked) (snd (firebase_config E))) = 1"
  by (simp add: firebase_config_def init_object init_trace one_registry_check)

theorem construction_never_raises_witness:
  "console_ok demo_env \<and>
   fst (firebase_config demo_env) = Inr blank \<and>
   length (filter (\<lambda>ev. ev = Apps_checked) (snd (firebase_config demo_env))) = 1"
proof -
  have ok: "console_ok demo_env"
    by (simp add: console_ok_def demo_env_def)
  have same: "fst (snd (initialize_firebase demo_env (blank, []))) = blank"
    by (simp add: prog_defs init_defs sample_defs)
  note T = construction_never_raises [of demo_env]
  have "fst (firebase_config demo_env) = Inr blank"
    using T [THEN conjunct1] ok same by simp
  then show ?thesis
    using ok T [THEN conjunct2, THEN conjunct2] by simp
qed

text \<open>
  The claim as it was written fails on a console that cannot encode the emoji: with no
  credentials the warning raises, the handler's line raises in turn, and the exception
  leaves the constructor, so the module-level object is not constructed.
\<close>

theorem construction_never_raises_counterexample:
  "fst (firebase_config ascii_env) = Inl (Exception ''UnicodeEncodeError'')"
  by (simp add: firebase_config_def FirebaseConfig_init_def prog_defs init_defs sample_defs
        line_defs ascii_env_def ascii_only_def)




section \<open>Claims about create_sample_data\<close>

text \<open>
  C7, as amended. On an object that is not available, \<open>create_sample_data\<close> does nothing to the
  database: no request is sent (so no existence probe), no document is read and no
  collection changes. It only prints one line, and returns False once the console has
  taken it.
\<close>

theorem unavailable_seeding_is_noop:
  assumes "\<not> is_available self"
  shows "fst (create_sample_data E self w) \<noteq> Inr True \<and>
         (print_fault E not_available_line = None \<longrightarrow>
            fst (create_sample_data E self w) = Inr False) \<and>
         store (snd (create_sample_data E self w)) = store w \<and>
         io_calls (snd (create_sample_data E self w)) = io_calls w \<and>
         docs_read (snd (create_sample_data E self w)) = docs_read w"
  using assms unavailable_untouched [of self E w] by (simp add: unavailable_run)

theorem unavailable_seeding_is_noop_witness:
  "\<not> is_available blank \<and>
   fst (create_sample_data demo_env blank empty_world) = Inr False \<and>
   store (snd (create_sample_data demo_env blank empty_world)) = store empty_world \<and>
   io_calls (snd (create_sample_data demo_env blank empty_world)) = 0"
proof -
  have h: "\<not> is_available blank"
    by (simp add: is_available_def blank_def)
  from unavailable_seeding_is_noop [OF h, of demo_env empty_world] h show ?thesis
    by (simp add: empty_world_def demo_env_def)
qed

text \<open>
  The claim as it was written fails where the line of the guard (line 82, before any
  \<open>try\<close>) cannot be printed: the call raises instead of returning False.
\<close>

theorem unavailable_seeding_is_noop_counterexample:
  "\<not> is_available blank \<and>
   fst (create_sample_data ascii_env blank empty_world) = Inl (Exception ''UnicodeEncodeError'')"
  by (simp add: sample_defs line_defs create_sample_data_def prog_defs print_line_def
        is_available_def)

text \<open>
  C3, as amended. When the connection is available and the probe \<open>limit(1).get()\<close> on \<open>sensor_data\<close>
  answers and finds a document, the call changes no collection, has sent that one request
  and has read one document, however many the collection holds, and returns True once
  the console has taken its line. Hence a second call right after a call that returned
  True writes nothing, and returns True when its probe answers and its line is printed.
\<close>

theorem seeding_is_idempotent:
  "(is_available self \<and> store w ''sensor_data'' \<noteq> [] \<and>
    firestore_fault E (io_calls w) = None \<longrightarrow>
      (console_ok E \<longrightarrow> fst (create_sample_data E self w) = Inr True) \<and>
      store (snd (create_sample_data E self w)) = store w \<and>
      io_calls (snd (create_sample_data E self w)) = Suc (io_calls w) \<and>
      docs_read (snd (create_sample_data E self w)) = Suc (docs_read w)) \<and>
   (fst (create_sample_data E self w) = Inr True \<longrightarrow>
      store (snd (create_sample_data E self (snd (create_sample_data E self w)))) =
        store (snd (create_sample_data E self w)) \<and>
      (firestore_fault E (io_calls (snd (create_sample_data E self w))) = None \<and>
       console_ok E \<longrightarrow>
         fst (create_sample_data E self (snd (create_sample_data E self w))) = Inr True))"
proof (intro conjI impI)
  assume h: "is_available self \<and> store w ''sensor_data'' \<noteq> [] \<and>
    firestore_fault E (io_calls w) = None"
  then have eff: "store (snd (create_sample_data E self w)) = store w \<and>
      io_calls (snd (create_sample_data E self w)) = Suc (io_calls w) \<and>
      docs_read (snd (create_sample_data E self w)) = Suc (docs_read w)"
    using probe_finds_data_effects [of self E w] by blast
  show "fst (create_sample_data E self w) = Inr True" if "console_ok E"
    using that h probe_finds_data [of self E w] by (simp add: console_okD)
  show "store (snd (create_sample_data E self w)) = store w"
    and "io_calls (snd (create_sample_data E self w)) = Suc (io_calls w)"
    and "docs_read (snd (create_sample_data E self w)) = Suc (docs_read w)"
    using eff by simp_all
next
  assume first: "fst (create_sample_data E self w) = Inr True"
  let ?w1 = "snd (create_sample_data E self w)"
  have data: "store ?w1 ''sensor_data'' \<noteq> []"
    using first by (rule success_leaves_data)
  show "store (snd (create_sample_data E self ?w1)) = store ?w1"
    using data by (rule no_writes_on_existing_data)
  have av: "is_available self"
    using first unavailable_untouched [of self E w] by blast
  assume "firestore_fault E (io_calls ?w1) = None \<and> console_ok E"
  then have "firestore_fault E (io_calls ?w1) = None"
    and "print_fault E already_exists_line = None"
    by (simp_all add: console_okD)
  from probe_finds_data [OF av this(1) data this(2)]
  show "fst (create_sample_data E self ?w1) = Inr True" by simp
qed

theorem seeding_is_idempotent_witness:
  "is_available connected \<and>
   length (store seeded_world ''sensor_data'') = 2 \<and>
   fst (create_sample_data demo_env connected seeded_world) = Inr True \<and>
   store (snd (create_sample_data demo_env connected seeded_world)) = store seeded_world \<and>
   docs_read (snd (create_sample_data demo_env connected seeded_world)) = 1 \<and>
   fst (create_sample_data demo_env connected empty_world) = Inr True \<and>
   store (snd (create_sample_data demo_env connected
                 (snd (create_sample_data demo_env connected empty_world)))) =
     store (snd (create_sample_data demo_env connected empty_world)) \<and>
   fst (create_sample_data demo_env connected
          (snd (create_sample_data demo_env connected empty_world))) = Inr True"
proof -
  have av: "is_available connected"
    by (simp add: is_available_def connected_def)
  have two: "length (store seeded_world ''sensor_data'') = 2"
    by (simp add: seeded_world_def)
  have quiet: "firestore_fault demo_env k = None" for k
    by (simp add: demo_env_def)
  have ok: "console_ok demo_env"
    by (simp add: console_ok_def demo_env_def)
  have first: "fst (create_sample_data demo_env connected empty_world) = Inr True"
    by (rule fresh_success [OF av _ _ ok]) (simp_all add: empty_world_def quiet)
  from seeding_is_idempotent [of connected seeded_world demo_env]
    seeding_is_idempotent [of connected empty_world demo_env] av two quiet first ok
  show ?thesis
    by (auto simp: seeded_world_def empty_world_def)
qed

text \<open>
  The claim as it was written fails where the line that reports the existing data cannot
  be printed: the print raises inside the \<open>try\<close>, the handler's line raises in turn, and
  the call does not return True.
\<close>

theorem seeding_is_idempotent_counterexample:
  "is_available connected \<and> store seeded_world ''sensor_data'' \<noteq> [] \<and>
   fst (create_sample_data ascii_env connected seeded_world) =
     Inl (Exception ''UnicodeEncodeError'')"
  by (simp add: sample_defs line_defs create_sample_data_def create_sample_data_body_def
        prog_defs world_defs is_available_def seeded_world_def empty_world_def)

text \<open>
  C8, as amended. Seeding is not atomic. When the connection is available, the probe finds
  \<open>sensor_data\<close> empty, the seeding is announced and the first request to raise is write
  number \<open>j\<close> of the 28, the call returns False (once the console has taken the line of
  the handler) and the database holds exactly the \<open>j - 1\<close> documents written before:
  the first \<open>min (j - 1) 24\<close> readings and the first \<open>j - 25\<close> alerts. Nothing is rolled back.
\<close>

theorem seeding_is_not_atomic:
  assumes "is_available self" and "store w ''sensor_data'' = []"
    and "1 \<le> j" and "j \<le> 28"
    and "\<forall>i<j. firestore_fault E (io_calls w + i) = None"
    and "firestore_fault E (io_calls w + j) = Some e"
    and "print_fault E creating_line = None"
  shows "(print_fault E (error_line e) = None \<longrightarrow>
            fst (create_sample_data E self w) = Inr False) \<and>
         store (snd (create_sample_data E self w)) =
           (store w)(''sensor_data'' :=
              map (reading E (clock_reads w) (random_draws w) 0) [0..<min (j - 1) 24],
            ''alerts'' := store w ''alerts'' @ take (j - 25) (alerts_of E (clock_reads w)))"
proof -
  consider "j \<le> 24" | "25 \<le> j" "j \<le> 27" | "j = 28"
    using assms(4) by linarith
  then show ?thesis
  proof cases
    case 1
    have "min (j - 1) 24 = j - 1" and "j - 25 = 0" using 1 by simp_all
    with fails_in_loop [OF assms(1,2,3) 1 assms(5,6,7)]
    show ?thesis
      by (auto simp: fun_eq_iff)
  next
    case 2
    have "min (j - 1) 24 = 24" using 2 by simp
    with fails_in_alerts [OF assms(1,2) 2 assms(5,6,7)] show ?thesis
      by simp
  next
    case 3
    have len: "length (alerts_of E (clock_reads w)) = 3"
      by (simp add: alerts_of_def sample_alerts_def)
    have ok: "\<forall>i<28. firestore_fault E (io_calls w + i) = None"
      and bad: "firestore_fault E (io_calls w + 28) = Some e"
      using assms(5,6) 3 by simp_all
    from fails_in_settings [OF assms(1,2) ok bad assms(7)] len 3 show ?thesis
      by simp
  qed
qed

theorem seeding_is_not_atomic_witness:
  "is_available connected \<and> print_fault flaky_env creating_line = None \<and>
   firestore_fault flaky_env 3 = Some (Exception ''503 Deadline Exceeded'') \<and>
   fst (create_sample_data flaky_env connected empty_world) = Inr False \<and>
   length (store (snd (create_sample_data flaky_env connected empty_world)) ''sensor_data'') = 2 \<and>
   store (snd (create_sample_data flaky_env connected empty_world)) ''alerts'' = []"
proof -
  have av: "is_available connected"
    by (simp add: is_available_def connected_def)
  have empty: "store empty_world ''sensor_data'' = []"
    by (simp add: empty_world_def)
  have ok: "\<forall>i<3. firestore_fault flaky_env (io_calls empty_world + i) = None"
    by (simp add: flaky_env_def demo_env_def empty_world_def)
  have bad: "firestore_fault flaky_env (io_calls empty_world + 3) =
               Some (Exception ''503 Deadline Exceeded'')"
    by (simp add: flaky_env_def demo_env_def empty_world_def)
  have con: "print_fault flaky_env line = None" for line
    by (simp add: flaky_env_def demo_env_def)
  from seeding_is_not_atomic [OF av empty _ _ ok bad con] bad con show ?thesis
    by (simp add: av empty_world_def)
qed

text \<open>
  The claim as it was written fails where the handler cannot print its line (line 181):
  the third write raises, the two readings written before it stay, and the call raises
  instead of returning False.
\<close>

theorem seeding_is_not_atomic_counterexample:
  "is_available connected \<and>
   fst (create_sample_data closing_env connected empty_world) =
     Inl (Exception ''BrokenPipeError'') \<and>
   length (store (snd (create_sample_data closing_env connected empty_world))
             ''sensor_data'') = 2"
proof -
  have av: "is_available connected"
    by (simp add: is_available_def connected_def)
  have empty: "store empty_world ''sensor_data'' = []"
    by (simp add: empty_world_def)
  have ok: "\<forall>i<3. firestore_fault closing_env (io_calls empty_world + i) = None"
    by (simp add: closing_env_def flaky_env_def demo_env_def empty_world_def)
  have bad: "firestore_fault closing_env (io_calls empty_world + 3) =
               Some (Exception ''503 Deadline Exceeded'')"
    by (simp add: closing_env_def flaky_env_def demo_env_def empty_world_def)
  have said: "print_fault closing_env creating_line = None"
    by (simp add: closing_env_def line_defs)
  have gone: "print_fault closing_env (error_line (Exception ''503 Deadline Exceeded'')) =
                Some (Exception ''BrokenPipeError'')"
    by (simp add: closing_env_def)
  note F = fails_in_loop [OF av empty _ _ ok bad said]
  have "fst (create_sample_data closing_env connected empty_world) =
          Inl (Exception ''BrokenPipeError'')"
    using F gone by simp
  moreover have "length (store (snd (create_sample_data closing_env connected empty_world))
             ''sensor_data'') = 2"
    using F by simp
  ultimately show ?thesis using av by simp
qed

text \<open>
  C4, as amended. On the fresh-seed path (the connection is available, \<open>sensor_data\<close> is
  empty, the probe and the 24 writes answer, the line that announces the seeding is
  printed, \<open>random.random()\<close> yields values in [0, 1))
  the call leaves exactly 24 documents in \<open>sensor_data\<close>. Document \<open>k\<close> has the six fields
  of a reading, a temperature in [20, 30] that is a multiple of 0.1, a dissolved oxygen in
  [4, 12] that is a multiple of 0.01, an ammonia in [0, 5] that is a multiple of 0.001,
  location Tank A and sensor SENSOR_001. Its timestamp is the clock reading of its own
  pass through the loop minus \<open>k\<close> hours, so two consecutive timestamps lie one hour apart
  less the time the clock advanced between the two passes: they decrease strictly as long
  as a pass takes less than an hour, and lie exactly one hour apart only where the clock
  did not move.
\<close>

theorem fresh_seed_readings:
  assumes "is_available self" and "store w ''sensor_data'' = []"
    and "\<forall>i<25. firestore_fault E (io_calls w + i) = None"
    and "\<forall>k. 0 \<le> random E k \<and> random E k < 1"
    and "print_fault E creating_line = None"
  shows "length (sensor_data_after E self w) = 24 \<and>
    (\<forall>k<24.
       map fst (sensor_data_after E self w ! k) =
         [''timestamp'', ''temperature'', ''dissolved_oxygen'', ''ammonia'', ''location'',
          ''sensor_id''] \<and>
       map_of (sensor_data_after E self w ! k) ''timestamp'' =
         Some (VDatetime (now E (clock_reads w + k) - int k * hour)) \<and>
       (\<exists>t z. map_of (sensor_data_after E self w ! k) ''temperature'' = Some (VFloat t) \<and>
              20 \<le> t \<and> t \<le> 30 \<and> t = of_int z / 10) \<and>
       (\<exists>d z. map_of (sensor_data_after E self w ! k) ''dissolved_oxygen'' = Some (VFloat d) \<and>
              4 \<le> d \<and> d \<le> 12 \<and> d = of_int z / 100) \<and>
       (\<exists>a z. map_of (sensor_data_after E self w ! k) ''ammonia'' = Some (VFloat a) \<and>
              0 \<le> a \<and> a \<le> 5 \<and> a = of_int z / 1000) \<and>
       map_of (sensor_data_after E self w ! k) ''location'' = Some (VStr ''Tank A'') \<and>
       map_of (sensor_data_after E self w ! k) ''sensor_id'' = Some (VStr ''SENSOR_001'')) \<and>
    (\<forall>k<23.
       timestamp_of (sensor_data_after E self w ! k) -
       timestamp_of (sensor_data_after E self w ! Suc k) =
         hour - (now E (clock_reads w + Suc k) - now E (clock_reads w + k)))"
proof -
  let ?c = "clock_reads w" and ?r = "random_draws w"
  have docs: "sensor_data_after E self w = map (reading E ?c ?r 0) [0..<24]"
    unfolding sensor_data_after_def by (rule fresh_sensor_data [OF assms(1,2,3,5)])
  have at: "sensor_data_after E self w ! k = reading E ?c ?r 0 k" if "k < 24" for k
    using that by (simp add: docs del: upt_Suc)
  have len: "length (sensor_data_after E self w) = 24"
    by (simp add: docs del: upt_Suc)
  have u: "0 \<le> random E n" "random E n < 1" for n
    using assms(4) by simp_all
  have fields: "map fst (sensor_data_after E self w ! k) =
         [''timestamp'', ''temperature'', ''dissolved_oxygen'', ''ammonia'', ''location'',
          ''sensor_id''] \<and>
       map_of (sensor_data_after E self w ! k) ''timestamp'' =
         Some (VDatetime (now E (clock_reads w + k) - int k * hour)) \<and>
       (\<exists>t z. map_of (sensor_data_after E self w ! k) ''temperature'' = Some (VFloat t) \<and>
              20 \<le> t \<and> t \<le> 30 \<and> t = of_int z / 10) \<and>
       (\<exists>d z. map_of (sensor_data_after E self w ! k) ''dissolved_oxygen'' = Some (VFloat d) \<and>
              4 \<le> d \<and> d \<le> 12 \<and> d = of_int z / 100) \<and>
       (\<exists>a z. map_of (sensor_data_after E self w ! k) ''ammonia'' = Some (VFloat a) \<and>
              0 \<le> a \<and> a \<le> 5 \<and> a = of_int z / 1000) \<and>
       map_of (sensor_data_after E self w ! k) ''location'' = Some (VStr ''Tank A'') \<and>
       map_of (sensor_data_after E self w ! k) ''sensor_id'' = Some (VStr ''SENSOR_001'')"
    if k: "k < 24" for k
  proof -
    note f = reading_fields [of E ?c ?r 0 k]
    obtain z1 where z1: "py_round (20 + 10 * random E (?r + 3 * k)) 1 = of_int z1 / 10 ^ 1"
      using py_round_grid by blast
    obtain z2 where z2: "py_round (4 + 8 * random E (?r + 3 * k + 1)) 2 = of_int z2 / 10 ^ 2"
      using py_round_grid by blast
    obtain z3 where z3: "py_round (5 * random E (?r + 3 * k + 2)) 3 = of_int z3 / 10 ^ 3"
      using py_round_grid by blast
    have t: "\<exists>t z. map_of (reading E ?c ?r 0 k) ''temperature'' = Some (VFloat t) \<and>
              20 \<le> t \<and> t \<le> 30 \<and> t = of_int z / 10"
      using f temperature_range [OF u [of "?r + 3 * k"]] z1 by auto
    have d: "\<exists>d z. map_of (reading E ?c ?r 0 k) ''dissolved_oxygen'' = Some (VFloat d) \<and>
              4 \<le> d \<and> d \<le> 12 \<and> d = of_int z / 100"
      using f oxygen_range [OF u [of "?r + 3 * k + 1"]] z2 by auto
    have a: "\<exists>a z. map_of (reading E ?c ?r 0 k) ''ammonia'' = Some (VFloat a) \<and>
              0 \<le> a \<and> a \<le> 5 \<and> a = of_int z / 1000"
      using f ammonia_range [OF u [of "?r + 3 * k + 2"]] z3 by auto
    show ?thesis
      unfolding at [OF k] using f t d a by simp
  qed
  have gaps: "timestamp_of (sensor_data_after E self w ! k) -
       timestamp_of (sensor_data_after E self w ! Suc k) =
         hour - (now E (clock_reads w + Suc k) - now E (clock_reads w + k))"
    if k: "k < 23" for k
  proof -
    have "k < 24" and "Suc k < 24" using k by simp_all
    then show ?thesis
      using reading_fields [of E ?c ?r 0 k] reading_fields [of E ?c ?r 0 "Suc k"]
      by (simp add: at algebra_simps)
  qed
  show ?thesis
    apply (rule conjI [OF len])
    apply (rule conjI)
     apply (intro allI impI)
     apply (erule fields)
    apply (intro allI impI)
    apply (erule gaps)
    done
qed

theorem fresh_seed_readings_witness:
  "is_available connected \<and>
   length (sensor_data_after demo_env connected empty_world) = 24 \<and>
   map_of (sensor_data_after demo_env connected empty_world ! 5) ''timestamp'' =
     Some (VDatetime (5000000 - 5 * hour)) \<and>
   map_of (sensor_data_after demo_env connected empty_world ! 5) ''location'' =
     Some (VStr ''Tank A'') \<and>
   timestamp_of (sensor_data_after demo_env connected empty_world ! 5) -
   timestamp_of (sensor_data_after demo_env connected empty_world ! 6) = hour - 1000000"
proof -
  have av: "is_available connected"
    by (simp add: is_available_def connected_def)
  have empty: "store empty_world ''sensor_data'' = []"
    by (simp add: empty_world_def)
  have ok: "\<forall>i<25. firestore_fault demo_env (io_calls empty_world + i) = None"
    by (simp add: demo_env_def)
  have rnd: "\<forall>k. 0 \<le> random demo_env k \<and> random demo_env k < 1"
    by (simp add: demo_env_def)
  have said: "print_fault demo_env creating_line = None"
    by (simp add: demo_env_def)
  note T = fresh_seed_readings [OF av empty ok rnd said]
  note len = T [THEN conjunct1]
  note at5 = T [THEN conjunct2, THEN conjunct1, rule_format, of 5]
  note gap5 = T [THEN conjunct2, THEN conjunct2, rule_format, of 5]
  have ts: "map_of (sensor_data_after demo_env connected empty_world ! 5) ''timestamp'' =
     Some (VDatetime (5000000 - 5 * hour))"
    using at5 by (simp add: demo_env_def empty_world_def)
  have loc: "map_of (sensor_data_after demo_env connected empty_world ! 5) ''location'' =
     Some (VStr ''Tank A'')"
    using at5 by simp
  have gap: "timestamp_of (sensor_data_after demo_env connected empty_world ! 5) -
       timestamp_of (sensor_data_after demo_env connected empty_world ! 6) = hour - 1000000"
    using gap5 by (simp add: demo_env_def empty_world_def eval_nat_numeral)
  show ?thesis
    using av len ts loc gap by simp
qed

text \<open>
  The claim as it was written fails as soon as the clock moves between two passes: with
  one second per reading, the timestamps of a fresh seed are not one hour apart. And
  where the line that announces the seeding cannot be printed, no reading is written.
\<close>

theorem fresh_seed_readings_counterexample:
  "\<not> spaced hour (map timestamp_of (sensor_data_after demo_env connected empty_world)) \<and>
   sensor_data_after ascii_env connected empty_world = []"
proof -
  have silent: "sensor_data_after ascii_env connected empty_world = []"
    by (simp add: sensor_data_after_def sample_defs line_defs create_sample_data_def
          create_sample_data_body_def prog_defs world_defs is_available_def empty_world_def)
  have av: "is_available connected"
    by (simp add: is_available_def connected_def)
  have empty: "store empty_world ''sensor_data'' = []"
    by (simp add: empty_world_def)
  have ok: "\<forall>i<25. firestore_fault demo_env (io_calls empty_world + i) = None"
    by (simp add: demo_env_def)
  have said: "print_fault demo_env creating_line = None"
    by (simp add: demo_env_def)
  have zero: "clock_reads empty_world = 0" "random_draws empty_world = 0"
    by (simp_all add: empty_world_def)
  have docs: "sensor_data_after demo_env connected empty_world =
      map (reading demo_env 0 0 0) [0..<24]"
    unfolding sensor_data_after_def fresh_sensor_data [OF av empty ok said] zero ..
  have start: "[0..<24] = 0 # 1 # [2..<24]"
    by (simp add: upt_rec)
  define later where "later = map timestamp_of (map (reading demo_env 0 0 0) [2..<24])"
  have t0: "timestamp_of (reading demo_env 0 0 0 0) = 0"
    and t1: "timestamp_of (reading demo_env 0 0 0 1) = 1000000 - hour"
    using reading_fields [of demo_env 0 0 0 0] reading_fields [of demo_env 0 0 0 1]
    by (simp_all add: demo_env_def)
  have shape: "map timestamp_of (sensor_data_after demo_env connected empty_world) =
      0 # (1000000 - hour) # later"
    unfolding docs start later_def by (simp only: list.map t0 t1)
  have "\<not> spaced hour (map timestamp_of (sensor_data_after demo_env connected empty_world))"
    unfolding shape by (simp add: hour_def)
  then show ?thesis using silent by simp
qed

end
